theory Spec2Isabelle
  imports Complex_Main
begin

section \<open>Errors and Python values\<close>

text \<open>
  Exceptions of the Python sources are values: a computation that can raise returns
  \<open>error + 'a\<close> with \<open>Inl\<close> for the exception. \<open>ValueError\<close> carries its message.
  \<open>InvalidArgumentError\<close> is what TensorFlow raises on tensors whose shapes do not fit an
  operation; \<open>IndexError\<close> is Python's for a list read out of range.
\<close>

datatype error =
    ValueError string
  | InvalidArgumentError
  | IndexError
  | ZeroDivisionError

definition bind_err :: "error + 'a \<Rightarrow> ('a \<Rightarrow> error + 'b) \<Rightarrow> error + 'b" where
  "bind_err m f = (case m of Inl e \<Rightarrow> Inl e | Inr x \<Rightarrow> f x)"

text \<open>
  Constructor arguments that are either an integer or a tuple (\<open>kernel_size\<close>,
  \<open>strides\<close>) keep their Python shape.
\<close>

datatype pyval = PInt int | PTuple "pyval list"

fun isinstance_int :: "pyval \<Rightarrow> bool" where
  "isinstance_int (PInt n) = True"
| "isinstance_int (PTuple vs) = False"

section \<open>Tensors\<close>

text \<open>
  A tensor is its shape and its entries, read by a multi-index of the shape's rank. Only
  entries at indices inside the shape are meaningful. The element type is a parameter:
  the layers of \<open>censai\<close> move entries around without looking at them.
\<close>

record 'a tensor =
  dims :: "nat list"
  elem :: "nat list \<Rightarrow> 'a"

text \<open>
  \<open>tf.split(value, num, axis)\<close> with an integer \<open>num\<close>: the axis must exist and its size
  must be divisible by \<open>num\<close>; piece \<open>k\<close> holds the entries \<open>k * size ..< (k + 1) * size\<close>
  of that axis.
\<close>

definition tf_split :: "'a tensor \<Rightarrow> nat \<Rightarrow> nat \<Rightarrow> error + 'a tensor list" where
  "tf_split t num axis =
     (if length (dims t) \<le> axis then Inl InvalidArgumentError
      else if num = 0 then Inl InvalidArgumentError
      else if dims t ! axis mod num \<noteq> 0 then Inl InvalidArgumentError
      else
        (let size = dims t ! axis div num in
         Inr (map (\<lambda>k. \<lparr>dims = (dims t)[axis := size],
                          elem = (\<lambda>idx. elem t (idx[axis := k * size + idx ! axis]))\<rparr>)
                  [0..<num])))"

text \<open>
  \<open>tf.concat(values, axis)\<close>: the list is not empty, the axis exists, and every tensor
  has the first one's shape except along the axis. An entry is looked up in the piece
  its position along the axis falls in.
\<close>

fun concat_elem :: "nat \<Rightarrow> 'a tensor \<Rightarrow> 'a tensor list \<Rightarrow> nat list \<Rightarrow> 'a" where
  "concat_elem axis t [] idx = elem t idx"
| "concat_elem axis t (u # us) idx =
     (if idx ! axis < dims t ! axis then elem t idx
      else concat_elem axis u us (idx[axis := idx ! axis - dims t ! axis]))"

definition concat_compatible :: "nat \<Rightarrow> 'a tensor \<Rightarrow> 'a tensor \<Rightarrow> bool" where
  "concat_compatible axis t u =
     (length (dims u) = length (dims t) \<and> (dims u)[axis := 0] = (dims t)[axis := 0])"

definition tf_concat :: "'a tensor list \<Rightarrow> nat \<Rightarrow> error + 'a tensor" where
  "tf_concat ts axis =
     (case ts of
        [] \<Rightarrow> Inl (ValueError ''List argument 'values' to 'ConcatV2' Op with length 0 shorter than minimum length 2.'')
      | t # us \<Rightarrow>
          if length (dims t) \<le> axis then Inl InvalidArgumentError
          else if \<not> list_all (concat_compatible axis t) us then Inl InvalidArgumentError
          else Inr \<lparr>dims = (dims t)[axis := sum_list (map (\<lambda>u. dims u ! axis) (t # us))],
                    elem = concat_elem axis t us\<rparr>)"

text \<open>Python's \<open>a, b = xs\<close>: exactly two values, or \<open>ValueError\<close>.\<close>

fun unpack2 :: "'a list \<Rightarrow> error + ('a \<times> 'a)" where
  "unpack2 [a, b] = Inr (a, b)"
| "unpack2 [] = Inl (ValueError ''not enough values to unpack (expected 2, got 0)'')"
| "unpack2 [a] = Inl (ValueError ''not enough values to unpack (expected 2, got 1)'')"
| "unpack2 (a # b # c # xs) = Inl (ValueError ''too many values to unpack (expected 2)'')"

section \<open>The recurrent block: \<open>conv_gru_component.py\<close>, \<open>conv_gru_plus_component.py\<close>\<close>

text \<open>
  The keyword arguments a constructor passes to \<open>tf.keras.layers.Conv2D\<close>. \<open>activation\<close> is
  \<open>None\<close> (Keras: no activation) unless the source passes one. A call that passes no
  \<open>strides\<close> gets the default of the Keras signature, \<open>(1, 1)\<close>; Keras reads an integer
  given for \<open>kernel_size\<close> or \<open>strides\<close> as that integer in both spatial dimensions
  (\<open>normalize_tuple\<close>).
\<close>

datatype conv_activation = No_activation | Tanh

record conv2d_config =
  filters :: int
  kernel_size :: pyval
  strides :: pyval
  activation :: conv_activation
  padding :: string
  data_format :: string

definition Conv2D_default_strides :: pyval where
  "Conv2D_default_strides = PTuple [PInt 1, PInt 1]"

fun normalize_tuple :: "pyval \<Rightarrow> pyval" where
  "normalize_tuple (PInt n) = PTuple [PInt n, PInt n]"
| "normalize_tuple (PTuple vs) = PTuple vs"

text \<open>
  A layer object is what it computes. The classes \<open>Conv2D\<close>, \<open>ConvGRU\<close> and \<open>ConvGRUPlus\<close>
  are not part of these sources (the first is Keras's, the other two live in
  \<open>conv_gru.py\<close> and \<open>conv_gru_plus.py\<close>), so their constructors are parameters: given
  the number of the instance built (each instance has weights of its own) and the
  constructor arguments, they yield the function the instance computes. A GRU cell
  returns a pair, of which the block keeps the first component.
\<close>

type_synonym 'a conv_fn = "'a tensor \<Rightarrow> error + 'a tensor"
type_synonym 'a cell_fn = "'a tensor \<Rightarrow> 'a tensor \<Rightarrow> error + ('a tensor \<times> 'a tensor)"

record 'a layers_lib =
  Conv2D :: "nat \<Rightarrow> conv2d_config \<Rightarrow> 'a conv_fn"
  ConvGRU :: "nat \<Rightarrow> int \<Rightarrow> pyval \<Rightarrow> 'a cell_fn"
  ConvGRUPlus :: "nat \<Rightarrow> int \<Rightarrow> pyval \<Rightarrow> 'a cell_fn"

record 'a ConvGRUBlock =
  conv1 :: "'a conv_fn"
  gru1 :: "'a cell_fn"
  gru2 :: "'a cell_fn"

record 'a ConvGRUPlusBlock =
  conv1 :: "'a conv_fn"
  gru1 :: "'a cell_fn"
  gru2 :: "'a cell_fn"

text \<open>\<open>ConvGRUBlock.__init__\<close>: \<open>conv1\<close> is built without \<open>strides\<close>.\<close>

definition ConvGRUBlock_kernel_size :: "pyval \<Rightarrow> pyval" where
  "ConvGRUBlock_kernel_size ks = (if isinstance_int ks then PTuple [ks, ks] else ks)"

definition ConvGRUBlock_conv1_config :: "int \<Rightarrow> pyval \<Rightarrow> conv2d_config" where
  "ConvGRUBlock_conv1_config flt ks =
     \<lparr>conv2d_config.filters = flt, kernel_size = ConvGRUBlock_kernel_size ks,
      strides = Conv2D_default_strides, activation = Tanh,
      padding = ''same'', data_format = ''channels_last''\<rparr>"

definition ConvGRUBlock_init :: "'a layers_lib \<Rightarrow> int \<Rightarrow> pyval \<Rightarrow> 'a ConvGRUBlock" where
  "ConvGRUBlock_init lib flt ks =
     (let gru_filters = flt; ks' = ConvGRUBlock_kernel_size ks in
      \<lparr>ConvGRUBlock.conv1 = Conv2D lib 0 (ConvGRUBlock_conv1_config flt ks),
       gru1 = ConvGRU lib 1 gru_filters ks',
       gru2 = ConvGRU lib 2 gru_filters ks'\<rparr>)"

text \<open>\<open>ConvGRUPlusBlock.__init__\<close>: \<open>conv1\<close> is built with \<open>strides=1\<close>.\<close>

definition ConvGRUPlusBlock_kernel_size :: "pyval \<Rightarrow> pyval" where
  "ConvGRUPlusBlock_kernel_size ks = (if isinstance_int ks then PTuple [ks, ks] else ks)"

definition ConvGRUPlusBlock_conv1_config :: "int \<Rightarrow> pyval \<Rightarrow> conv2d_config" where
  "ConvGRUPlusBlock_conv1_config flt ks =
     \<lparr>conv2d_config.filters = flt, kernel_size = ConvGRUPlusBlock_kernel_size ks,
      strides = PInt 1, activation = Tanh,
      padding = ''same'', data_format = ''channels_last''\<rparr>"

definition ConvGRUPlusBlock_init :: "'a layers_lib \<Rightarrow> int \<Rightarrow> pyval \<Rightarrow> 'a ConvGRUPlusBlock" where
  "ConvGRUPlusBlock_init lib flt ks =
     (let ks' = ConvGRUPlusBlock_kernel_size ks in
      \<lparr>ConvGRUPlusBlock.conv1 = Conv2D lib 0 (ConvGRUPlusBlock_conv1_config flt ks),
       gru1 = ConvGRUPlus lib 1 flt ks',
       gru2 = ConvGRUPlus lib 2 flt ks'\<rparr>)"

text \<open>\<open>ConvGRUBlock.call(inputs, state)\<close>, statement by statement.\<close>

definition ConvGRUBlock_call ::
  "'a ConvGRUBlock \<Rightarrow> 'a tensor \<Rightarrow> 'a tensor \<Rightarrow> error + ('a tensor \<times> 'a tensor)" where
  "ConvGRUBlock_call self inputs state =
     bind_err (tf_split state 2 3) (\<lambda>halves.
     bind_err (unpack2 halves) (\<lambda>(ht_11, ht_12).
     bind_err (ConvGRUBlock.gru1 self inputs ht_11) (\<lambda>(gru_1_out, _).
     bind_err (ConvGRUBlock.conv1 self gru_1_out) (\<lambda>gru_1_outE.
     bind_err (ConvGRUBlock.gru2 self gru_1_outE ht_12) (\<lambda>(gru_2_out, _).
     bind_err (tf_concat [gru_1_out, gru_2_out] 3) (\<lambda>ht.
     (let xt = gru_2_out in Inr (xt, ht))))))))"

text \<open>\<open>ConvGRUPlusBlock.call(inputs, state)\<close>, statement by statement.\<close>

definition ConvGRUPlusBlock_call ::
  "'a ConvGRUPlusBlock \<Rightarrow> 'a tensor \<Rightarrow> 'a tensor \<Rightarrow> error + ('a tensor \<times> 'a tensor)" where
  "ConvGRUPlusBlock_call self inputs state =
     bind_err (tf_split state 2 3) (\<lambda>halves.
     bind_err (unpack2 halves) (\<lambda>(ht_11, ht_12).
     bind_err (ConvGRUPlusBlock.gru1 self inputs ht_11) (\<lambda>(gru_1_out, _).
     bind_err (ConvGRUPlusBlock.conv1 self gru_1_out) (\<lambda>gru_1_outE.
     bind_err (ConvGRUPlusBlock.gru2 self gru_1_outE ht_12) (\<lambda>(gru_2_out, _).
     bind_err (tf_concat [gru_1_out, gru_2_out] 3) (\<lambda>ht.
     (let xt = gru_2_out in Inr (xt, ht))))))))"

text \<open>
  The words of the specification, to compare the calls with: the slab of \<open>n\<close> channels
  starting at channel \<open>lo\<close> of a state, and the concatenation of two grids along the
  channel axis (axis 3 of a \<open>[batch, height, width, channels]\<close> grid).
\<close>

definition channel_slab :: "nat \<Rightarrow> nat \<Rightarrow> 'a tensor \<Rightarrow> 'a tensor" where
  "channel_slab lo n t =
     \<lparr>dims = (dims t)[3 := n], elem = (\<lambda>idx. elem t (idx[3 := lo + idx ! 3]))\<rparr>"

definition channel_concat :: "'a tensor \<Rightarrow> 'a tensor \<Rightarrow> 'a tensor" where
  "channel_concat a b =
     \<lparr>dims = (dims a)[3 := dims a ! 3 + dims b ! 3],
      elem = (\<lambda>idx. if idx ! 3 < dims a ! 3 then elem a idx
                     else elem b (idx[3 := idx ! 3 - dims a ! 3]))\<rparr>"

text \<open>
  Inputs for the examples: a one-pixel state with two channels holding 10 and 20, and a
  cell that returns its prior state.
\<close>

definition state_10_20 :: "nat tensor" where
  "state_10_20 = \<lparr>dims = [1, 1, 1, 2], elem = (\<lambda>idx. 10 * (idx ! 3 + 1))\<rparr>"

definition keep_state :: "nat cell_fn" where
  "keep_state x h = Inr (h, h)"

section \<open>The encoding stage: \<open>conv_encoding_layer.py\<close>\<close>

text \<open>
  The layers of the encoding stage are called with the training flag, and two of them
  have effects: batch normalisation updates its running statistics and spatial dropout
  draws from the random generator. A layer is therefore a function of the features, the
  flag and the state \<open>'s\<close> of the run (statistics, generator), returning the features and
  the state after it, or the exception it raises. The activation object comes from
  \<open>get_activation\<close> (in \<open>censai.models.utils\<close>, not part of these sources); the source
  calls it with \<open>training=\<close> in one place and without in the others, so its model takes
  the keyword as an option.
\<close>

type_synonym ('a, 's) keras_layer = "'a tensor \<Rightarrow> bool \<Rightarrow> 's \<Rightarrow> error + ('a tensor \<times> 's)"
type_synonym ('a, 's) activation_fn =
  "'a tensor \<Rightarrow> bool option \<Rightarrow> 's \<Rightarrow> error + ('a tensor \<times> 's)"

definition bind_st ::
  "('s \<Rightarrow> error + ('a \<times> 's)) \<Rightarrow> ('a \<Rightarrow> 's \<Rightarrow> error + ('b \<times> 's)) \<Rightarrow> 's \<Rightarrow> error + ('b \<times> 's)" where
  "bind_st m f s = (case m s of Inl e \<Rightarrow> Inl e | Inr (x, s') \<Rightarrow> f x s')"

text \<open>\<open>tf.keras.layers.Lambda(lambda x, training=True: x)\<close>.\<close>

definition identity_layer :: "('a, 's) keras_layer" where
  "identity_layer x training s = Inr (x, s)"

text \<open>Python's \<open>xs[i]\<close> for \<open>i \<ge> 0\<close>.\<close>

definition list_get :: "'a list \<Rightarrow> nat \<Rightarrow> error + 'a" where
  "list_get xs i = (if i < length xs then Inr (xs ! i) else Inl IndexError)"

text \<open>
  The constructors the stage calls, as parameters: Keras's \<open>Conv2D\<close>,
  \<open>BatchNormalization\<close> and \<open>SpatialDropout2D\<close> (with the number of the instance built,
  since each has weights of its own) and \<open>get_activation\<close>, which may reject a name.
\<close>

record ('a, 's) keras_lib =
  Conv2D :: "nat \<Rightarrow> conv2d_config \<Rightarrow> ('a, 's) keras_layer"
  BatchNormalization :: "nat \<Rightarrow> ('a, 's) keras_layer"
  SpatialDropout2D :: "real \<Rightarrow> string \<Rightarrow> ('a, 's) keras_layer"
  get_activation :: "string \<Rightarrow> error + ('a, 's) activation_fn"

record ('a, 's) DownsamplingLayer =
  conv :: "('a, 's) keras_layer"
  batch_norm :: "('a, 's) keras_layer"
  activation :: "('a, 's) activation_fn"

text \<open>\<open>DownsamplingLayer.__init__(filters, kernel_size, activation, strides, batch_norm)\<close>.\<close>

definition DownsamplingLayer_conv_config :: "int \<Rightarrow> pyval \<Rightarrow> pyval \<Rightarrow> conv2d_config" where
  "DownsamplingLayer_conv_config flt ks st =
     \<lparr>conv2d_config.filters = flt, kernel_size = ks, strides = st,
      activation = No_activation, padding = ''SAME'', data_format = ''channels_last''\<rparr>"

definition DownsamplingLayer_init ::
  "('a, 's) keras_lib \<Rightarrow> nat \<Rightarrow> int \<Rightarrow> pyval \<Rightarrow> ('a, 's) activation_fn \<Rightarrow> pyval \<Rightarrow> bool
     \<Rightarrow> ('a, 's) DownsamplingLayer" where
  "DownsamplingLayer_init lib n flt ks act st bn =
     \<lparr>conv = Conv2D lib n (DownsamplingLayer_conv_config flt ks st),
      batch_norm = (if bn then BatchNormalization lib n else identity_layer),
      activation = act\<rparr>"

text \<open>\<open>DownsamplingLayer.call(x, training)\<close>.\<close>

definition DownsamplingLayer_call ::
  "('a, 's) DownsamplingLayer \<Rightarrow> ('a, 's) keras_layer" where
  "DownsamplingLayer_call self x training =
     bind_st (conv self x training) (\<lambda>x.
     bind_st (batch_norm self x training) (\<lambda>x.
     DownsamplingLayer.activation self x None))"

record ('a, 's) ConvEncodingLayer =
  downsampling_kernel_size :: pyval
  downsampling_filters :: int
  kernel_size :: pyval
  num_conv_layers :: int
  filters :: int
  strides :: pyval
  activation :: "('a, 's) activation_fn"
  conv_layers :: "('a, 's) keras_layer list"
  batch_norms :: "('a, 's) keras_layer list"
  downsampling_layer :: "('a, 's) DownsamplingLayer"
  dropout :: "('a, 's) keras_layer"

text \<open>
  \<open>ConvEncodingLayer.__init__\<close>. The arguments are, in the order of the signature,
  \<open>kernel_size\<close>, \<open>downsampling_kernel_size\<close>, \<open>downsampling_filters\<close>, \<open>filters\<close>,
  \<open>conv_layers\<close>, \<open>activation\<close>, \<open>batch_norm\<close>, \<open>dropout_rate\<close> and \<open>strides\<close> (\<open>name\<close> only
  labels the layer). \<open>range(self.num_conv_layers)\<close> is empty for a negative count.
\<close>

definition ConvEncodingLayer_conv_config :: "int \<Rightarrow> pyval \<Rightarrow> conv2d_config" where
  "ConvEncodingLayer_conv_config flt ks =
     \<lparr>conv2d_config.filters = flt, kernel_size = ks, strides = Conv2D_default_strides,
      activation = No_activation, padding = ''SAME'', data_format = ''channels_last''\<rparr>"

definition ConvEncodingLayer_init ::
  "('a, 's) keras_lib \<Rightarrow> pyval \<Rightarrow> pyval option \<Rightarrow> int option \<Rightarrow> int \<Rightarrow> int \<Rightarrow> string \<Rightarrow> bool
     \<Rightarrow> real option \<Rightarrow> pyval \<Rightarrow> error + ('a, 's) ConvEncodingLayer" where
  "ConvEncodingLayer_init lib ks dks dflt flt n act_name bn rate st =
     (let self_downsampling_kernel_size =
            (case dks of None \<Rightarrow> ks | Some k \<Rightarrow> PTuple [k, k]);
          self_downsampling_filters = (case dflt of None \<Rightarrow> flt | Some d \<Rightarrow> d);
          self_kernel_size = (if isinstance_int ks then PTuple [ks, ks] else ks);
          self_strides = (if isinstance_int st then PTuple [st, st] else st)
      in bind_err (get_activation lib act_name) (\<lambda>self_activation.
         Inr \<lparr>downsampling_kernel_size = self_downsampling_kernel_size,
              downsampling_filters = self_downsampling_filters,
              kernel_size = self_kernel_size,
              num_conv_layers = n,
              filters = flt,
              strides = self_strides,
              activation = self_activation,
              conv_layers =
                map (\<lambda>i. Conv2D lib i (ConvEncodingLayer_conv_config flt self_kernel_size))
                  [0..<nat n],
              batch_norms =
                map (\<lambda>i. if bn then BatchNormalization lib i else identity_layer) [0..<nat n],
              downsampling_layer =
                DownsamplingLayer_init lib (nat n) self_downsampling_filters
                  self_downsampling_kernel_size self_activation self_strides bn,
              dropout =
                (case rate of None \<Rightarrow> identity_layer
                 | Some r \<Rightarrow> SpatialDropout2D lib r ''channels_last'')\<rparr>))"

text \<open>
  \<open>ConvEncodingLayer.call(x, training)\<close>: the body of the loop for the \<open>i\<close>-th layer, the
  loop over \<open>enumerate(self.conv_layers)\<close>, and the call.
\<close>

definition ConvEncodingLayer_call_body ::
  "('a, 's) ConvEncodingLayer \<Rightarrow> nat \<Rightarrow> ('a, 's) keras_layer \<Rightarrow> ('a, 's) keras_layer" where
  "ConvEncodingLayer_call_body self i layer x training =
     bind_st (layer x training) (\<lambda>x.
     bind_st (\<lambda>s. case list_get (batch_norms self) i of
                     Inl e \<Rightarrow> Inl e | Inr bn \<Rightarrow> bn x training s) (\<lambda>x.
     bind_st (ConvEncodingLayer.activation self x (Some training)) (\<lambda>x.
     dropout self x training)))"

fun ConvEncodingLayer_call_loop ::
  "('a, 's) ConvEncodingLayer \<Rightarrow> nat \<Rightarrow> ('a, 's) keras_layer list \<Rightarrow> ('a, 's) keras_layer" where
  "ConvEncodingLayer_call_loop self i [] x training s = Inr (x, s)"
| "ConvEncodingLayer_call_loop self i (layer # rest) x training s =
     (case ConvEncodingLayer_call_body self i layer x training s of
        Inl e \<Rightarrow> Inl e
      | Inr (x', s') \<Rightarrow> ConvEncodingLayer_call_loop self (Suc i) rest x' training s')"

definition ConvEncodingLayer_call ::
  "('a, 's) ConvEncodingLayer \<Rightarrow> ('a, 's) keras_layer" where
  "ConvEncodingLayer_call self x training =
     bind_st (ConvEncodingLayer_call_loop self 0 (conv_layers self) x training) (\<lambda>x.
     DownsamplingLayer_call (downsampling_layer self) x training)"

text \<open>
  \<open>ConvEncodingLayer.call_with_skip_connection(x, training)\<close>: the loop calls the
  activation without the keyword, and the features before the downsampling are returned
  too.
\<close>

definition ConvEncodingLayer_call_with_skip_connection_body ::
  "('a, 's) ConvEncodingLayer \<Rightarrow> nat \<Rightarrow> ('a, 's) keras_layer \<Rightarrow> ('a, 's) keras_layer" where
  "ConvEncodingLayer_call_with_skip_connection_body self i layer x training =
     bind_st (layer x training) (\<lambda>x.
     bind_st (\<lambda>s. case list_get (batch_norms self) i of
                     Inl e \<Rightarrow> Inl e | Inr bn \<Rightarrow> bn x training s) (\<lambda>x.
     bind_st (ConvEncodingLayer.activation self x None) (\<lambda>x.
     dropout self x training)))"

fun ConvEncodingLayer_call_with_skip_connection_loop ::
  "('a, 's) ConvEncodingLayer \<Rightarrow> nat \<Rightarrow> ('a, 's) keras_layer list \<Rightarrow> ('a, 's) keras_layer" where
  "ConvEncodingLayer_call_with_skip_connection_loop self i [] x training s = Inr (x, s)"
| "ConvEncodingLayer_call_with_skip_connection_loop self i (layer # rest) x training s =
     (case ConvEncodingLayer_call_with_skip_connection_body self i layer x training s of
        Inl e \<Rightarrow> Inl e
      | Inr (x', s') \<Rightarrow>
          ConvEncodingLayer_call_with_skip_connection_loop self (Suc i) rest x' training s')"

definition ConvEncodingLayer_call_with_skip_connection ::
  "('a, 's) ConvEncodingLayer \<Rightarrow> 'a tensor \<Rightarrow> bool \<Rightarrow> 's
     \<Rightarrow> error + (('a tensor \<times> 'a tensor) \<times> 's)" where
  "ConvEncodingLayer_call_with_skip_connection self x training =
     bind_st (ConvEncodingLayer_call_with_skip_connection_loop self 0 (conv_layers self)
                x training) (\<lambda>x.
     bind_st (DownsamplingLayer_call (downsampling_layer self) x training) (\<lambda>x_down s.
     Inr ((x, x_down), s)))"

text \<open>
  The words of the specification, to compare the call with: one encoding layer is a
  convolution followed by the normalisation, the nonlinearity and the dropout; the
  downsampling stage is a convolution followed by its normalisation and the
  nonlinearity; the stage runs its layers in sequence and then the downsampling.
\<close>

definition encoding_layer_spec ::
  "('a, 's) keras_layer \<Rightarrow> ('a, 's) keras_layer \<Rightarrow> ('a, 's) activation_fn \<Rightarrow> ('a, 's) keras_layer
     \<Rightarrow> ('a, 's) keras_layer" where
  "encoding_layer_spec convolution normalization nonlinearity dropout_layer x training =
     bind_st (convolution x training) (\<lambda>x.
     bind_st (normalization x training) (\<lambda>x.
     bind_st (nonlinearity x (Some training)) (\<lambda>x.
     dropout_layer x training)))"

definition downsampling_spec ::
  "('a, 's) keras_layer \<Rightarrow> ('a, 's) keras_layer \<Rightarrow> ('a, 's) activation_fn
     \<Rightarrow> ('a, 's) keras_layer" where
  "downsampling_spec convolution normalization nonlinearity x training =
     bind_st (convolution x training) (\<lambda>x.
     bind_st (normalization x training) (\<lambda>x.
     nonlinearity x None))"

fun in_sequence :: "('a, 's) keras_layer list \<Rightarrow> ('a, 's) keras_layer" where
  "in_sequence [] x training = (\<lambda>s. Inr (x, s))"
| "in_sequence (l # ls) x training = bind_st (l x training) (\<lambda>x. in_sequence ls x training)"

definition encoding_stage_spec ::
  "('a, 's) keras_lib \<Rightarrow> pyval \<Rightarrow> pyval \<Rightarrow> int \<Rightarrow> int \<Rightarrow> nat \<Rightarrow> ('a, 's) activation_fn \<Rightarrow> bool
     \<Rightarrow> real option \<Rightarrow> pyval \<Rightarrow> ('a, 's) keras_layer" where
  "encoding_stage_spec lib ks dks dflt flt N act bn rate st x training =
     bind_st
       (in_sequence
          (map (\<lambda>i. encoding_layer_spec
                      (Conv2D lib i (ConvEncodingLayer_conv_config flt ks))
                      (if bn then BatchNormalization lib i else identity_layer)
                      act
                      (case rate of None \<Rightarrow> identity_layer
                       | Some r \<Rightarrow> SpatialDropout2D lib r ''channels_last''))
               [0..<N])
          x training)
       (\<lambda>x. downsampling_spec
               (Conv2D lib N (DownsamplingLayer_conv_config dflt dks st))
               (if bn then BatchNormalization lib N else identity_layer)
               act x training)"

text \<open>
  Inputs for the examples: stand-ins for the Keras layers that record, in the state of
  the run, the order in which they are called. The stand-in for a convolution with
  strides other than \<open>(1, 1)\<close> keeps the first channel of its input; the others return
  their input.
\<close>

definition traced_lib :: "(nat, string list) keras_lib" where
  "traced_lib =
     \<lparr>Conv2D = (\<lambda>n cfg x training s.
         if conv2d_config.strides cfg = PTuple [PInt 1, PInt 1]
         then Inr (x, s @ [''conv''])
         else Inr (channel_slab 0 1 x, s @ [''strided conv''])),
      BatchNormalization = (\<lambda>n x training s. Inr (x, s @ [''norm''])),
      SpatialDropout2D = (\<lambda>r df x training s. Inr (x, s @ [''dropout''])),
      get_activation = (\<lambda>name. Inr (\<lambda>x training s. Inr (x, s @ [''activation''])))\<rparr>"

section \<open>Floating-point values and tensor arithmetic\<close>

text \<open>
  The training script computes in \<open>DTYPE\<close> floating point. A value is a real number or
  one of the three special values. Arithmetic on real numbers is exact here: rounding,
  overflow to an infinity and the sign of zero are not modelled. The special values
  follow IEEE 754: an undefined operation gives \<open>NaN\<close>, \<open>NaN\<close> propagates, and every
  comparison with \<open>NaN\<close> is false.
\<close>

datatype flt = Fin real | PInf | NInf | NaN

fun fadd :: "flt \<Rightarrow> flt \<Rightarrow> flt" where
  "fadd (Fin a) (Fin b) = Fin (a + b)"
| "fadd NaN y = NaN"
| "fadd x NaN = NaN"
| "fadd PInf NInf = NaN"
| "fadd NInf PInf = NaN"
| "fadd PInf y = PInf"
| "fadd x PInf = PInf"
| "fadd NInf y = NInf"
| "fadd x NInf = NInf"

fun fneg :: "flt \<Rightarrow> flt" where
  "fneg (Fin a) = Fin (- a)"
| "fneg PInf = NInf"
| "fneg NInf = PInf"
| "fneg NaN = NaN"

definition fsub :: "flt \<Rightarrow> flt \<Rightarrow> flt" where
  "fsub x y = fadd x (fneg y)"

definition inf_of_sign :: "real \<Rightarrow> flt" where
  "inf_of_sign a = (if a = 0 then NaN else if 0 < a then PInf else NInf)"

fun fmul :: "flt \<Rightarrow> flt \<Rightarrow> flt" where
  "fmul (Fin a) (Fin b) = Fin (a * b)"
| "fmul NaN y = NaN"
| "fmul x NaN = NaN"
| "fmul (Fin a) PInf = inf_of_sign a"
| "fmul (Fin a) NInf = inf_of_sign (- a)"
| "fmul PInf (Fin b) = inf_of_sign b"
| "fmul NInf (Fin b) = inf_of_sign (- b)"
| "fmul PInf PInf = PInf"
| "fmul PInf NInf = NInf"
| "fmul NInf PInf = NInf"
| "fmul NInf NInf = PInf"

fun fdiv :: "flt \<Rightarrow> flt \<Rightarrow> flt" where
  "fdiv (Fin a) (Fin b) = (if b = 0 then inf_of_sign a else Fin (a / b))"
| "fdiv NaN y = NaN"
| "fdiv x NaN = NaN"
| "fdiv (Fin a) PInf = Fin 0"
| "fdiv (Fin a) NInf = Fin 0"
| "fdiv PInf (Fin b) = (if 0 \<le> b then PInf else NInf)"
| "fdiv NInf (Fin b) = (if 0 \<le> b then NInf else PInf)"
| "fdiv PInf PInf = NaN"
| "fdiv PInf NInf = NaN"
| "fdiv NInf PInf = NaN"
| "fdiv NInf NInf = NaN"

fun fsqrt :: "flt \<Rightarrow> flt" where
  "fsqrt (Fin a) = (if a < 0 then NaN else Fin (sqrt a))"
| "fsqrt PInf = PInf"
| "fsqrt NInf = NaN"
| "fsqrt NaN = NaN"

definition fsquare :: "flt \<Rightarrow> flt" where
  "fsquare x = fmul x x"

fun fless :: "flt \<Rightarrow> flt \<Rightarrow> bool" where
  "fless (Fin a) (Fin b) = (a < b)"
| "fless NaN y = False"
| "fless x NaN = False"
| "fless x NInf = False"
| "fless PInf y = False"
| "fless NInf y = True"
| "fless x PInf = True"

fun isnan :: "flt \<Rightarrow> bool" where
  "isnan NaN = True"
| "isnan (Fin a) = False"
| "isnan PInf = False"
| "isnan NInf = False"


definition fsum :: "flt list \<Rightarrow> flt" where
  "fsum xs = foldr fadd xs (Fin 0)"

text \<open>
  Elementwise operations broadcast as NumPy does: the shapes are aligned at their last
  axes, two sizes fit when they are equal or one of them is 1, and an operand is read at
  position 0 along an axis where its size is 1.
\<close>

definition bc_pos :: "nat \<Rightarrow> nat \<Rightarrow> nat" where
  "bc_pos d i = (if d = 1 then 0 else i)"

definition bc_index :: "nat list \<Rightarrow> nat list \<Rightarrow> nat list" where
  "bc_index ds idx = map2 bc_pos ds (drop (length idx - length ds) idx)"

definition broadcast_dim :: "nat \<Rightarrow> nat \<Rightarrow> nat option" where
  "broadcast_dim a b =
     (if a = b then Some a else if a = 1 then Some b else if b = 1 then Some a else None)"

fun broadcast_rev :: "nat list \<Rightarrow> nat list \<Rightarrow> nat list option" where
  "broadcast_rev [] ys = Some ys"
| "broadcast_rev (x # xs) [] = Some (x # xs)"
| "broadcast_rev (x # xs) (y # ys) =
     (case broadcast_dim x y of
        None \<Rightarrow> None
      | Some d \<Rightarrow> (case broadcast_rev xs ys of None \<Rightarrow> None | Some ds \<Rightarrow> Some (d # ds)))"

definition broadcast_shape :: "nat list \<Rightarrow> nat list \<Rightarrow> nat list option" where
  "broadcast_shape s1 s2 = map_option rev (broadcast_rev (rev s1) (rev s2))"

definition tf_binop :: "('a \<Rightarrow> 'a \<Rightarrow> 'a) \<Rightarrow> 'a tensor \<Rightarrow> 'a tensor \<Rightarrow> error + 'a tensor" where
  "tf_binop f a b =
     (case broadcast_shape (dims a) (dims b) of
        None \<Rightarrow> Inl InvalidArgumentError
      | Some ds \<Rightarrow>
          Inr \<lparr>dims = ds,
               elem = (\<lambda>idx. f (elem a (bc_index (dims a) idx))
                               (elem b (bc_index (dims b) idx)))\<rparr>)"

definition tf_add :: "flt tensor \<Rightarrow> flt tensor \<Rightarrow> error + flt tensor" where
  "tf_add = tf_binop fadd"

definition tf_sub :: "flt tensor \<Rightarrow> flt tensor \<Rightarrow> error + flt tensor" where
  "tf_sub = tf_binop fsub"

definition tf_mul :: "flt tensor \<Rightarrow> flt tensor \<Rightarrow> error + flt tensor" where
  "tf_mul = tf_binop fmul"

definition tf_div :: "flt tensor \<Rightarrow> flt tensor \<Rightarrow> error + flt tensor" where
  "tf_div = tf_binop fdiv"

definition tf_map :: "('a \<Rightarrow> 'a) \<Rightarrow> 'a tensor \<Rightarrow> 'a tensor" where
  "tf_map f t = \<lparr>dims = dims t, elem = (\<lambda>idx. f (elem t idx))\<rparr>"

definition tf_square :: "flt tensor \<Rightarrow> flt tensor" where
  "tf_square = tf_map fsquare"

definition tf_sqrt :: "flt tensor \<Rightarrow> flt tensor" where
  "tf_sqrt = tf_map fsqrt"

text \<open>A Python number used as an operand: a tensor of rank 0.\<close>

definition scalar :: "real \<Rightarrow> flt tensor" where
  "scalar c = \<lparr>dims = [], elem = (\<lambda>idx. Fin c)\<rparr>"

definition tf_ones :: "nat list \<Rightarrow> flt tensor" where
  "tf_ones shape = \<lparr>dims = shape, elem = (\<lambda>idx. Fin 1)\<rparr>"

definition tf_range :: "nat \<Rightarrow> flt tensor" where
  "tf_range n = \<lparr>dims = [n], elem = (\<lambda>idx. Fin (real (idx ! 0)))\<rparr>"

text \<open>\<open>t[..., tf.newaxis]\<close>: a new last axis of size 1.\<close>

definition newaxis_last :: "'a tensor \<Rightarrow> 'a tensor" where
  "newaxis_last t = \<lparr>dims = dims t @ [1], elem = (\<lambda>idx. elem t (butlast idx))\<rparr>"

text \<open>
  \<open>tf.reduce_sum(t, axis, keepdims)\<close> sums along the given axes, one after the other (the
  order does not matter in this arithmetic); each summed axis keeps size 1, and is
  removed at the end unless \<open>keepdims\<close> is set.
\<close>

definition reduce_axis :: "nat \<Rightarrow> flt tensor \<Rightarrow> flt tensor" where
  "reduce_axis k t =
     \<lparr>dims = (dims t)[k := 1],
      elem = (\<lambda>idx. fsum (map (\<lambda>n. elem t (idx[k := n])) [0..<dims t ! k]))\<rparr>"

definition squeeze_axes :: "nat list \<Rightarrow> 'a tensor \<Rightarrow> 'a tensor" where
  "squeeze_axes axes t =
     \<lparr>dims = map snd (filter (\<lambda>(i, d). i \<notin> set axes) (enumerate 0 (dims t))),
      elem = (\<lambda>idx. elem t (fold (\<lambda>k xs. take k xs @ 0 # drop k xs)
                                 (sort (remdups axes)) idx))\<rparr>"

definition tf_reduce_sum :: "flt tensor \<Rightarrow> nat list \<Rightarrow> bool \<Rightarrow> error + flt tensor" where
  "tf_reduce_sum t axes keepdims =
     (if list_ex (\<lambda>k. length (dims t) \<le> k) axes then Inl InvalidArgumentError
      else
        (let r = fold reduce_axis axes t in
         Inr (if keepdims then r else squeeze_axes axes r)))"

text \<open>\<open>t[-1]\<close>: the last entry along the first axis.\<close>

definition tf_last :: "'a tensor \<Rightarrow> error + 'a tensor" where
  "tf_last t =
     (case dims t of
        [] \<Rightarrow> Inl InvalidArgumentError
      | d # ds \<Rightarrow>
          if d = 0 then Inl InvalidArgumentError
          else Inr \<lparr>dims = ds, elem = (\<lambda>idx. elem t ((d - 1) # idx))\<rparr>)"

section \<open>The training script: \<open>train_rim.py\<close>\<close>

text \<open>
  The command-line arguments the modelled part of \<open>main\<close> reads. \<open>steps\<close> counts the
  steps of the machine, which is built with it before the weights are chosen.
  \<open>patience\<close> is an integer, or \<open>np.inf\<close> when the option is not given.
\<close>

datatype patience_count = Patience int | Patience_inf

fun decrement :: "patience_count \<Rightarrow> patience_count" where
  "decrement (Patience p) = Patience (p - 1)"
| "decrement Patience_inf = Patience_inf"

record args =
  steps :: nat
  time_weights :: string
  kappa_residual_weights :: string
  source_residual_weights :: string
  batch_size :: int
  unroll_time_steps :: bool
  epochs :: int
  patience :: patience_count
  tolerance :: flt
  track_train :: bool
  checkpoints :: int
  model_dir :: string

subsection \<open>Weights of the loss (lines 183 to 214)\<close>

text \<open>The weights of the time steps, of shape \<open>[steps, 1]\<close>.\<close>

definition main_wt :: "args \<Rightarrow> error + flt tensor" where
  "main_wt a =
     (if time_weights a = ''uniform'' then
        bind_err (tf_div (tf_ones [steps a]) (scalar (real (steps a)))) (\<lambda>wt.
        Inr (newaxis_last wt))
      else if time_weights a = ''linear'' then
        bind_err (tf_add (tf_range (steps a)) (scalar 1)) (\<lambda>r1.
        bind_err (tf_mul (scalar 2) r1) (\<lambda>r2.
        bind_err (tf_div r2 (scalar (real (steps a)))) (\<lambda>r3.
        bind_err (tf_div r3 (scalar (real (steps a + 1)))) (\<lambda>wt.
        Inr (newaxis_last wt)))))
      else if time_weights a = ''quadratic'' then
        bind_err (tf_add (tf_range (steps a)) (scalar 1)) (\<lambda>r1.
        bind_err (tf_mul (scalar 6) (tf_square r1)) (\<lambda>r2.
        bind_err (tf_div r2 (scalar (real (steps a)))) (\<lambda>r3.
        bind_err (tf_div r3 (scalar (real (steps a + 1)))) (\<lambda>r4.
        bind_err (tf_div r4 (scalar (real (2 * steps a + 1)))) (\<lambda>wt.
        Inr (newaxis_last wt))))))
      else Inl (ValueError ''time_weights must be in ['uniform', 'linear', 'quadratic']''))"

text \<open>
  The four functions wrapped in \<open>tf.keras.layers.Lambda\<close>, which map a ground truth of
  shape \<open>[batch, pixels, pixels, 1]\<close> to the weights of its pixels, and the divisor each
  of them uses.
\<close>

definition lambda_uniform :: "flt tensor \<Rightarrow> error + flt tensor" where
  "lambda_uniform k = tf_div (tf_ones (dims k)) (scalar (real (prod_list (tl (dims k)))))"

definition lambda_linear :: "flt tensor \<Rightarrow> error + flt tensor" where
  "lambda_linear k =
     bind_err (tf_reduce_sum k [1, 2, 3] True) (\<lambda>total. tf_div k total)"

definition lambda_sqrt :: "flt tensor \<Rightarrow> error + flt tensor" where
  "lambda_sqrt k =
     bind_err (tf_reduce_sum (tf_sqrt k) [1, 2, 3] True) (\<lambda>total. tf_div (tf_sqrt k) total)"

definition lambda_quadratic :: "flt tensor \<Rightarrow> error + flt tensor" where
  "lambda_quadratic k =
     bind_err (tf_reduce_sum (tf_square k) [1, 2, 3] True) (\<lambda>total. tf_div (tf_square k) total)"


definition main_wk :: "args \<Rightarrow> error + (flt tensor \<Rightarrow> error + flt tensor)" where
  "main_wk a =
     (if kappa_residual_weights a = ''uniform'' then Inr lambda_uniform
      else if kappa_residual_weights a = ''linear'' then Inr lambda_linear
      else if kappa_residual_weights a = ''sqrt'' then Inr lambda_sqrt
      else if kappa_residual_weights a = ''quadratic'' then Inr lambda_quadratic
      else Inl (ValueError
        ''kappa_residual_weights must be in ['uniform', 'linear', 'quadratic', 'sqrt']''))"

definition main_ws :: "args \<Rightarrow> error + (flt tensor \<Rightarrow> error + flt tensor)" where
  "main_ws a =
     (if source_residual_weights a = ''uniform'' then Inr lambda_uniform
      else if source_residual_weights a = ''linear'' then Inr lambda_linear
      else if source_residual_weights a = ''quadratic'' then Inr lambda_quadratic
      else if source_residual_weights a = ''sqrt'' then Inr lambda_sqrt
      else Inl (ValueError
        ''kappa_residual_weights must be in ['uniform', 'linear', 'quadratic', 'sqrt']''))"

subsection \<open>\<open>train_step\<close> (lines 272 to 294)\<close>

text \<open>
  The recurrent inference machine is not part of these sources. \<open>train_step\<close> uses its two
  forward passes, which return the trace of source estimates, the trace of kappa
  estimates and the chi squared of each step, and its two inverse link functions.
\<close>

record rim_model =
  call_function ::
    "flt tensor \<Rightarrow> flt tensor \<Rightarrow> flt tensor \<Rightarrow> error + (flt tensor \<times> flt tensor \<times> flt tensor)"
  call ::
    "flt tensor \<Rightarrow> flt tensor \<Rightarrow> flt tensor \<Rightarrow> error + (flt tensor \<times> flt tensor \<times> flt tensor)"
  source_inverse_link :: "flt tensor \<Rightarrow> flt tensor"
  kappa_inverse_link :: "flt tensor \<Rightarrow> flt tensor"

text \<open>
  Lines 280 to 286, the cost under the gradient tape: \<open>source_cost1\<close>, \<open>kappa_cost1\<close> and
  \<open>cost\<close>.
\<close>

definition train_step_cost ::
  "args \<Rightarrow> rim_model \<Rightarrow> flt tensor \<Rightarrow> (flt tensor \<Rightarrow> error + flt tensor)
     \<Rightarrow> (flt tensor \<Rightarrow> error + flt tensor)
     \<Rightarrow> flt tensor \<Rightarrow> flt tensor \<Rightarrow> flt tensor \<Rightarrow> flt tensor
     \<Rightarrow> error + (flt tensor \<times> flt tensor \<times> flt tensor)" where
  "train_step_cost a rim wt wk ws source kappa source_series kappa_series =
     bind_err (ws source) (\<lambda>ws_source.
     bind_err (tf_sub source_series (source_inverse_link rim source)) (\<lambda>source_residual.
     bind_err (tf_mul ws_source (tf_square source_residual)) (\<lambda>source_weighted.
     bind_err (tf_reduce_sum source_weighted [2, 3, 4] False) (\<lambda>source_cost1.
     bind_err (wk kappa) (\<lambda>wk_kappa.
     bind_err (tf_sub kappa_series (kappa_inverse_link rim kappa)) (\<lambda>kappa_residual.
     bind_err (tf_mul wk_kappa (tf_square kappa_residual)) (\<lambda>kappa_weighted.
     bind_err (tf_reduce_sum kappa_weighted [2, 3, 4] False) (\<lambda>kappa_cost1.
     bind_err (tf_mul wt source_cost1) (\<lambda>source_timed.
     bind_err (tf_reduce_sum source_timed [0] False) (\<lambda>source_cost.
     bind_err (tf_mul wt kappa_cost1) (\<lambda>kappa_timed.
     bind_err (tf_reduce_sum kappa_timed [0] False) (\<lambda>kappa_cost.
     bind_err (tf_add kappa_cost source_cost) (\<lambda>both.
     bind_err (tf_reduce_sum both [0..<length (dims both)] False) (\<lambda>total.
     bind_err (tf_div total (scalar (real_of_int (batch_size a)))) (\<lambda>cost.
     Inr (source_cost1, kappa_cost1, cost))))))))))))))))"

text \<open>
  \<open>train_step(X, source, kappa, noise_rms, psf)\<close>. The gradient step between the cost and
  the metrics changes the weights of the network and nothing of what is returned.
\<close>

definition train_step ::
  "args \<Rightarrow> rim_model \<Rightarrow> flt tensor \<Rightarrow> (flt tensor \<Rightarrow> error + flt tensor)
     \<Rightarrow> (flt tensor \<Rightarrow> error + flt tensor)
     \<Rightarrow> flt tensor \<Rightarrow> flt tensor \<Rightarrow> flt tensor \<Rightarrow> flt tensor \<Rightarrow> flt tensor
     \<Rightarrow> error + (flt tensor \<times> flt tensor \<times> flt tensor \<times> flt tensor)" where
  "train_step a rim wt wk ws X source kappa noise_rms psf =
     bind_err (if unroll_time_steps a then call_function rim X noise_rms psf
               else call rim X noise_rms psf) (\<lambda>(source_series, kappa_series, chi_squared).
     bind_err (train_step_cost a rim wt wk ws source kappa source_series kappa_series)
       (\<lambda>(source_cost1, kappa_cost1, cost).
     bind_err (tf_last chi_squared) (\<lambda>chi_last.
     bind_err (tf_reduce_sum chi_last [0..<length (dims chi_last)] False) (\<lambda>chi_total.
     bind_err (tf_div chi_total (scalar (real_of_int (batch_size a)))) (\<lambda>chi_squared.
     bind_err (tf_last source_cost1) (\<lambda>source_last.
     bind_err (tf_reduce_sum source_last [0..<length (dims source_last)] False) (\<lambda>source_total.
     bind_err (tf_div source_total (scalar (real_of_int (batch_size a)))) (\<lambda>source_cost.
     bind_err (tf_last kappa_cost1) (\<lambda>kappa_last.
     bind_err (tf_reduce_sum kappa_last [0..<length (dims kappa_last)] False) (\<lambda>kappa_total.
     bind_err (tf_div kappa_total (scalar (real_of_int (batch_size a)))) (\<lambda>kappa_cost.
     Inr (cost, chi_squared, source_cost, kappa_cost))))))))))))"

subsection \<open>The training loop (lines 356 to 498)\<close>

text \<open>
  What an epoch observes of the world: whether the time budget is spent when it starts
  (line 364), how many batches the training set yields, the means of the training and of
  the validation cost (lines 434 and 435), whether the time budget is spent at its end
  (line 477) and whether the learning rate has fallen below \<open>1e-8\<close> (line 494). Writing
  summaries and plots is not modelled.
\<close>

record epoch_obs =
  start_out_of_time :: bool
  n_batches :: nat
  train_cost :: flt
  val_cost :: flt
  end_out_of_time :: bool
  lr_below_limit :: bool

text \<open>
  The variables of the loop, with what it has written: the lines of the score sheet and
  the epochs at which \<open>checkpoint_manager.save()\<close> was called.
\<close>

record loop_state =
  best_loss :: flt
  patience :: patience_count
  step :: nat
  out_of_time :: bool
  lastest_checkpoint :: int
  history :: "(flt \<times> flt) list"
  score_sheet :: "(int \<times> flt) list"
  saved_at :: "nat list"

definition initial_state :: "args \<Rightarrow> loop_state" where
  "initial_state a =
     \<lparr>best_loss = PInf, patience = args.patience a, step = 0, out_of_time = False,
      lastest_checkpoint = 1, history = [], score_sheet = [], saved_at = []\<rparr>"

definition tracked_cost :: "args \<Rightarrow> epoch_obs \<Rightarrow> flt" where
  "tracked_cost a ob = (if track_train a then train_cost ob else val_cost ob)"

text \<open>Lines 472 to 478.\<close>

definition update_patience :: "args \<Rightarrow> epoch_obs \<Rightarrow> flt \<Rightarrow> loop_state \<Rightarrow> loop_state" where
  "update_patience a ob cost st =
     (let st' = (if fless cost (fmul (fsub (Fin 1) (tolerance a)) (best_loss st))
                 then st\<lparr>best_loss := cost, patience := args.patience a\<rparr>
                 else st\<lparr>patience := decrement (loop_state.patience st)\<rparr>)
      in if end_out_of_time ob then st'\<lparr>out_of_time := True\<rparr> else st')"

text \<open>Lines 479 to 486. \<open>epoch % args.checkpoints\<close> raises when \<open>checkpoints\<close> is 0.\<close>

definition save_checkpoint_branch ::
  "args \<Rightarrow> bool \<Rightarrow> nat \<Rightarrow> flt \<Rightarrow> loop_state \<Rightarrow> error + loop_state" where
  "save_checkpoint_branch a save_checkpoint epoch cost st =
     (if save_checkpoint then
        if checkpoints a = 0 then Inl ZeroDivisionError
        else if int epoch mod checkpoints a = 0 \<or> loop_state.patience st = Patience 0
                \<or> int epoch = epochs a - 1 \<or> out_of_time st
        then Inr (st\<lparr>score_sheet := score_sheet st @ [(lastest_checkpoint st, cost)],
                     lastest_checkpoint := lastest_checkpoint st + 1,
                     saved_at := saved_at st @ [epoch]\<rparr>)
        else Inr st
      else Inr st)"

text \<open>
  The loop over \<open>range(args.epochs)\<close>. It returns the state it ends in and the exception
  that ended it, if any.
\<close>

fun training_loop ::
  "args \<Rightarrow> bool \<Rightarrow> (nat \<Rightarrow> epoch_obs) \<Rightarrow> nat list \<Rightarrow> loop_state \<Rightarrow> loop_state \<times> error option" where
  "training_loop a save_checkpoint env [] st = (st, None)"
| "training_loop a save_checkpoint env (epoch # rest) st =
     (if start_out_of_time (env epoch) then (st, None)
      else
        (let st1 = st\<lparr>step := step st + n_batches (env epoch),
                      history := history st @ [(train_cost (env epoch), val_cost (env epoch))]\<rparr>;
             cost = tracked_cost a (env epoch)
         in if isnan cost then (st1, None)
            else
              (case save_checkpoint_branch a save_checkpoint epoch cost
                      (update_patience a (env epoch) cost st1) of
                 Inl e \<Rightarrow> (update_patience a (env epoch) cost st1, Some e)
               | Inr st2 \<Rightarrow>
                   if loop_state.patience st2 = Patience 0 then (st2, None)
                   else if out_of_time st2 then (st2, None)
                   else if lr_below_limit (env epoch) then (st2, None)
                   else training_loop a save_checkpoint env rest st2)))"

text \<open>
  \<open>main\<close> from line 183 on: the weights of the loss are chosen, then the loop runs.
  \<open>save_checkpoint\<close> is set when \<open>model_dir\<close> is not \<open>none\<close> in any capitalisation.
\<close>

definition lower_char :: "char \<Rightarrow> char" where
  "lower_char c =
     (let n = (of_char c :: nat) in if 65 \<le> n \<and> n \<le> 90 then char_of (n + 32) else c)"

definition main :: "args \<Rightarrow> (nat \<Rightarrow> epoch_obs) \<Rightarrow> loop_state \<times> error option" where
  "main a env =
     (case main_wt a of
        Inl e \<Rightarrow> (initial_state a, Some e)
      | Inr wt \<Rightarrow>
          (case main_wk a of
             Inl e \<Rightarrow> (initial_state a, Some e)
           | Inr wk \<Rightarrow>
               (case main_ws a of
                  Inl e \<Rightarrow> (initial_state a, Some e)
                | Inr ws \<Rightarrow>
                    training_loop a (map lower_char (model_dir a) \<noteq> ''none'') env
                      [0..<nat (epochs a)] (initial_state a))))"

text \<open>
  Inputs for the examples: a run of three epochs that saves checkpoints every fifth
  epoch, with unlimited patience, tracking the validation cost; and epochs of three
  batches that never run out of time, with a given validation cost.
\<close>

definition args_0 :: args where
  "args_0 =
     \<lparr>steps = 2, time_weights = ''uniform'', kappa_residual_weights = ''uniform'',
      source_residual_weights = ''uniform'', batch_size = 1, unroll_time_steps = False,
      epochs = 3, patience = Patience_inf, tolerance = Fin 0, track_train = False,
      checkpoints = 5, model_dir = ''models''\<rparr>"

definition env_val_cost :: "(nat \<Rightarrow> flt) \<Rightarrow> nat \<Rightarrow> epoch_obs" where
  "env_val_cost c e =
     \<lparr>start_out_of_time = False, n_batches = 3, train_cost = Fin 1, val_cost = c e,
      end_out_of_time = False, lr_below_limit = False\<rparr>"

text \<open>
  The words of the specification, to compare the cost with: the sum over the pixels of a
  sample, the squared residual of one step and one sample weighted pixel by pixel, and the
  cost of one field and one sample, which weights the steps.
\<close>

definition pixel_sum :: "(nat \<Rightarrow> nat \<Rightarrow> nat \<Rightarrow> flt) \<Rightarrow> nat \<Rightarrow> nat \<Rightarrow> nat \<Rightarrow> flt" where
  "pixel_sum f H W C =
     fsum (map (\<lambda>c. fsum (map (\<lambda>j. fsum (map (\<lambda>i. f i j c) [0..<H])) [0..<W])) [0..<C])"

definition weighted_residual ::
  "flt tensor \<Rightarrow> flt tensor \<Rightarrow> flt tensor \<Rightarrow> nat \<Rightarrow> nat \<Rightarrow> nat \<Rightarrow> nat \<Rightarrow> nat \<Rightarrow> flt" where
  "weighted_residual w series truth_link H W C t b =
     pixel_sum (\<lambda>i j c. fmul (elem w [b, i, j, c])
                  (fsquare (fsub (elem series [t, b, i, j, c]) (elem truth_link [b, i, j, c]))))
       H W C"

definition field_cost ::
  "flt tensor \<Rightarrow> flt tensor \<Rightarrow> flt tensor \<Rightarrow> flt tensor \<Rightarrow> nat \<Rightarrow> nat \<Rightarrow> nat \<Rightarrow> nat \<Rightarrow> nat \<Rightarrow> flt" where
  "field_cost wt w series truth_link T H W C b =
     fsum (map (\<lambda>t. fmul (elem wt [t, 0]) (weighted_residual w series truth_link H W C t b))
            [0..<T])"

text \<open>
  The function behind \<open>wk\<close> and \<open>ws\<close> for a recognized name, and the real number a finite
  value stands for.
\<close>

definition residual_lambda :: "string \<Rightarrow> flt tensor \<Rightarrow> error + flt tensor" where
  "residual_lambda name =
     (if name = ''uniform'' then lambda_uniform
      else if name = ''linear'' then lambda_linear
      else if name = ''sqrt'' then lambda_sqrt
      else if name = ''quadratic'' then lambda_quadratic
      else (\<lambda>k. Inl (ValueError
        ''kappa_residual_weights must be in ['uniform', 'linear', 'quadratic', 'sqrt']'')))"


text \<open>
  Inputs for the examples: a ground truth of one sample with 2 by 2 pixels holding 1, 2,
  3 and 4; a trace of two steps whose estimates are the ground truth plus a constant;
  and a machine with identity links that returns such traces.
\<close>

definition pixels_1234 :: "flt tensor" where
  "pixels_1234 = \<lparr>dims = [1, 2, 2, 1], elem = (\<lambda>idx. Fin (real (1 + 2 * (idx ! 1) + idx ! 2)))\<rparr>"

definition estimates :: "flt tensor \<Rightarrow> real \<Rightarrow> real \<Rightarrow> flt tensor" where
  "estimates truth d0 d1 =
     \<lparr>dims = 2 # dims truth,
      elem = (\<lambda>idx. fadd (elem truth (tl idx)) (Fin (if hd idx = 0 then d0 else d1)))\<rparr>"

definition rim_identity :: rim_model where
  "rim_identity =
     \<lparr>call_function = (\<lambda>X noise_rms psf.
        Inr (estimates pixels_1234 2 1, estimates pixels_1234 2 0, tf_ones [2, 1])),
      call = (\<lambda>X noise_rms psf.
        Inr (estimates pixels_1234 2 1, estimates pixels_1234 2 0, tf_ones [2, 1])),
      source_inverse_link = (\<lambda>x. x), kappa_inverse_link = (\<lambda>x. x)\<rparr>"

section \<open>Properties of the recurrent block\<close>

lemma upt_2: "[0..<2] = [0, Suc 0]"
  by (simp add: upt_rec numeral_2_eq_2)

lemma tf_split_halves:
  assumes "dims state = [B, H, W, 2 * F]"
  shows "tf_split state 2 3 = Inr [channel_slab 0 F state, channel_slab F F state]"
  using assms by (simp add: tf_split_def channel_slab_def upt_2)

lemma tf_split_odd:
  assumes "dims state = [B, H, W, 2 * F + 1]"
  shows "tf_split state 2 3 = Inl InvalidArgumentError"
  using assms by (simp add: tf_split_def)

lemma tf_concat_pair:
  assumes "dims a = [B, H, W, Ca]" and "dims b = [B, H, W, Cb]"
  shows "tf_concat [a, b] 3 = Inr (channel_concat a b)"
  using assms
  by (simp add: tf_concat_def channel_concat_def concat_compatible_def fun_eq_iff)

lemma ConvGRUBlock_call_stages:
  assumes "dims state = [B, H, W, 2 * F]"
    and "ConvGRUBlock.gru1 self inputs (channel_slab 0 F state) = Inr (gru_1_out, d1)"
    and "ConvGRUBlock.conv1 self gru_1_out = Inr gru_1_outE"
    and "ConvGRUBlock.gru2 self gru_1_outE (channel_slab F F state) = Inr (gru_2_out, d2)"
    and "dims gru_1_out = [B', H', W', C1]" and "dims gru_2_out = [B', H', W', C2]"
  shows "ConvGRUBlock_call self inputs state
           = Inr (gru_2_out, channel_concat gru_1_out gru_2_out)"
  using assms(2-4)
  by (simp add: ConvGRUBlock_call_def bind_err_def tf_split_halves [OF assms(1)]
      tf_concat_pair [OF assms(5,6)])

lemma ConvGRUPlusBlock_call_stages:
  assumes "dims state = [B, H, W, 2 * F]"
    and "ConvGRUPlusBlock.gru1 self inputs (channel_slab 0 F state) = Inr (gru_1_out, d1)"
    and "ConvGRUPlusBlock.conv1 self gru_1_out = Inr gru_1_outE"
    and "ConvGRUPlusBlock.gru2 self gru_1_outE (channel_slab F F state) = Inr (gru_2_out, d2)"
    and "dims gru_1_out = [B', H', W', C1]" and "dims gru_2_out = [B', H', W', C2]"
  shows "ConvGRUPlusBlock_call self inputs state
           = Inr (gru_2_out, channel_concat gru_1_out gru_2_out)"
  using assms(2-4)
  by (simp add: ConvGRUPlusBlock_call_def bind_err_def tf_split_halves [OF assms(1)]
      tf_concat_pair [OF assms(5,6)])

lemma conv1_configs:
  "conv2d_config.activation (ConvGRUBlock_conv1_config flt ks) = Tanh"
  "conv2d_config.padding (ConvGRUBlock_conv1_config flt ks) = ''same''"
  "normalize_tuple (conv2d_config.strides (ConvGRUBlock_conv1_config flt ks)) = PTuple [PInt 1, PInt 1]"
  "conv2d_config.activation (ConvGRUPlusBlock_conv1_config flt ks) = Tanh"
  "conv2d_config.padding (ConvGRUPlusBlock_conv1_config flt ks) = ''same''"
  "normalize_tuple (conv2d_config.strides (ConvGRUPlusBlock_conv1_config flt ks)) = PTuple [PInt 1, PInt 1]"
  by (simp_all add: ConvGRUBlock_conv1_config_def ConvGRUPlusBlock_conv1_config_def
      Conv2D_default_strides_def)

text \<open>
  Claim C1. Take a hidden state of shape \<open>[B, H, W, 2 * F]\<close> and any input grid. The call
  of the block, in either variant, splits the state along the channel axis into the
  halves \<open>ht_11\<close> (channels \<open>0 ..< F\<close>) and \<open>ht_12\<close> (channels \<open>F ..< 2 * F\<close>). With
  \<open>gru_1_out\<close> what the first cell returns on the inputs and \<open>ht_11\<close>, \<open>gru_1_outE\<close> what the
  one intermediate convolution returns on \<open>gru_1_out\<close>, and \<open>gru_2_out\<close> what the second
  cell returns on \<open>gru_1_outE\<close> and \<open>ht_12\<close> (the two cell outputs being grids over the same
  batch and pixels), the call returns \<open>gru_2_out\<close> as output features and the channel
  concatenation of \<open>gru_1_out\<close> followed by \<open>gru_2_out\<close> as new state. The intermediate
  convolution is built tanh-activated, with same padding and stride 1 in both
  constructors.
\<close>

theorem block_call_wiring:
  assumes "dims state = [B, H, W, 2 * F]"
    and "g1 inputs (channel_slab 0 F state) = Inr (gru_1_out, d1)"
    and "c1 gru_1_out = Inr gru_1_outE"
    and "g2 gru_1_outE (channel_slab F F state) = Inr (gru_2_out, d2)"
    and "dims gru_1_out = [B', H', W', C1]" and "dims gru_2_out = [B', H', W', C2]"
  shows "tf_split state 2 3 = Inr [channel_slab 0 F state, channel_slab F F state]
       \<and> ConvGRUBlock_call \<lparr>ConvGRUBlock.conv1 = c1, gru1 = g1, gru2 = g2\<rparr> inputs state
           = Inr (gru_2_out, channel_concat gru_1_out gru_2_out)
       \<and> ConvGRUPlusBlock_call \<lparr>ConvGRUPlusBlock.conv1 = c1, gru1 = g1, gru2 = g2\<rparr> inputs state
           = Inr (gru_2_out, channel_concat gru_1_out gru_2_out)
       \<and> conv2d_config.activation (ConvGRUBlock_conv1_config flt ks) = Tanh
       \<and> conv2d_config.padding (ConvGRUBlock_conv1_config flt ks) = ''same''
       \<and> normalize_tuple (conv2d_config.strides (ConvGRUBlock_conv1_config flt ks)) = PTuple [PInt 1, PInt 1]
       \<and> conv2d_config.activation (ConvGRUPlusBlock_conv1_config flt ks) = Tanh
       \<and> conv2d_config.padding (ConvGRUPlusBlock_conv1_config flt ks) = ''same''
       \<and> normalize_tuple (conv2d_config.strides (ConvGRUPlusBlock_conv1_config flt ks)) = PTuple [PInt 1, PInt 1]"
proof -
  have "ConvGRUBlock_call \<lparr>ConvGRUBlock.conv1 = c1, gru1 = g1, gru2 = g2\<rparr> inputs state
          = Inr (gru_2_out, channel_concat gru_1_out gru_2_out)"
    using ConvGRUBlock_call_stages
      [where self = "\<lparr>ConvGRUBlock.conv1 = c1, gru1 = g1, gru2 = g2\<rparr>" and ?d1.0 = d1
         and ?d2.0 = d2 and gru_1_outE = gru_1_outE, OF assms(1) _ _ _ assms(5,6)]
      assms(2-4)
    by simp
  moreover have "ConvGRUPlusBlock_call \<lparr>ConvGRUPlusBlock.conv1 = c1, gru1 = g1, gru2 = g2\<rparr> inputs state
          = Inr (gru_2_out, channel_concat gru_1_out gru_2_out)"
    using ConvGRUPlusBlock_call_stages
      [where self = "\<lparr>ConvGRUPlusBlock.conv1 = c1, gru1 = g1, gru2 = g2\<rparr>" and ?d1.0 = d1
         and ?d2.0 = d2 and gru_1_outE = gru_1_outE, OF assms(1) _ _ _ assms(5,6)]
      assms(2-4)
    by simp
  ultimately show ?thesis
    using tf_split_halves [OF assms(1)] by (simp add: conv1_configs)
qed

theorem block_call_wiring_witness:
  "dims state_10_20 = [1, 1, 1, 2 * 1]
   \<and> ConvGRUBlock_call \<lparr>ConvGRUBlock.conv1 = Inr, gru1 = keep_state, gru2 = keep_state\<rparr>
        state_10_20 state_10_20
       = Inr (channel_slab 1 1 state_10_20,
              channel_concat (channel_slab 0 1 state_10_20) (channel_slab 1 1 state_10_20))
   \<and> elem (channel_slab 1 1 state_10_20) [0, 0, 0, 0] = 20
   \<and> elem (channel_concat (channel_slab 0 1 state_10_20) (channel_slab 1 1 state_10_20)) [0, 0, 0, 0] = 10
   \<and> elem (channel_concat (channel_slab 0 1 state_10_20) (channel_slab 1 1 state_10_20)) [0, 0, 0, 1] = 20"
  using block_call_wiring [where state = state_10_20 and B = 1 and H = 1 and W = 1 and F = 1
      and ?g1.0 = keep_state and ?g2.0 = keep_state and ?c1.0 = Inr and inputs = state_10_20
      and gru_1_out = "channel_slab 0 1 state_10_20" and ?d1.0 = "channel_slab 0 1 state_10_20"
      and gru_1_outE = "channel_slab 0 1 state_10_20"
      and gru_2_out = "channel_slab 1 1 state_10_20" and ?d2.0 = "channel_slab 1 1 state_10_20"
      and B' = 1 and H' = 1 and W' = 1 and ?C1.0 = 1 and ?C2.0 = 1]
  by (simp add: state_10_20_def keep_state_def channel_slab_def channel_concat_def)

text \<open>
  Claim C3. A hidden state of shape \<open>[B, H, W, 2 * F]\<close> is split into exactly two slabs of
  shape \<open>[B, H, W, F]\<close>. When each cell returns an \<open>F\<close>-channel state for its slab (a grid
  of shape \<open>[B, H, W, F]\<close>), the call of either variant returns a new hidden state of
  shape \<open>[B, H, W, 2 * F]\<close>: \<open>2 * F\<close> channels, batch and spatial dimensions those of the
  state it was given. This holds for every \<open>F\<close>, so for every \<open>F > 0\<close>.
\<close>

theorem block_channel_split_invariant:
  assumes "dims state = [B, H, W, 2 * F]"
    and "g1 inputs (channel_slab 0 F state) = Inr (gru_1_out, d1)"
    and "dims gru_1_out = [B, H, W, F]"
    and "c1 gru_1_out = Inr gru_1_outE"
    and "g2 gru_1_outE (channel_slab F F state) = Inr (gru_2_out, d2)"
    and "dims gru_2_out = [B, H, W, F]"
  shows "(\<exists>ht_11 ht_12. tf_split state 2 3 = Inr [ht_11, ht_12]
            \<and> dims ht_11 = [B, H, W, F] \<and> dims ht_12 = [B, H, W, F])
       \<and> (\<exists>xt ht. ConvGRUBlock_call \<lparr>ConvGRUBlock.conv1 = c1, gru1 = g1, gru2 = g2\<rparr> inputs state
                     = Inr (xt, ht)
            \<and> dims ht = [B, H, W, 2 * F] \<and> dims ht = dims state)
       \<and> (\<exists>xt ht. ConvGRUPlusBlock_call \<lparr>ConvGRUPlusBlock.conv1 = c1, gru1 = g1, gru2 = g2\<rparr> inputs state
                     = Inr (xt, ht)
            \<and> dims ht = [B, H, W, 2 * F] \<and> dims ht = dims state)"
proof -
  have split: "\<exists>ht_11 ht_12. tf_split state 2 3 = Inr [ht_11, ht_12]
            \<and> dims ht_11 = [B, H, W, F] \<and> dims ht_12 = [B, H, W, F]"
    using tf_split_halves [OF assms(1)] assms(1) by (simp add: channel_slab_def)
  have d: "dims (channel_concat gru_1_out gru_2_out) = [B, H, W, 2 * F]"
    using assms(3,6) by (simp add: channel_concat_def)
  have a: "ConvGRUBlock_call \<lparr>ConvGRUBlock.conv1 = c1, gru1 = g1, gru2 = g2\<rparr> inputs state
          = Inr (gru_2_out, channel_concat gru_1_out gru_2_out)"
    using ConvGRUBlock_call_stages
      [where self = "\<lparr>ConvGRUBlock.conv1 = c1, gru1 = g1, gru2 = g2\<rparr>" and ?d1.0 = d1
         and ?d2.0 = d2 and gru_1_outE = gru_1_outE, OF assms(1) _ _ _ assms(3,6)]
      assms(2,4,5)
    by simp
  have b: "ConvGRUPlusBlock_call \<lparr>ConvGRUPlusBlock.conv1 = c1, gru1 = g1, gru2 = g2\<rparr> inputs state
          = Inr (gru_2_out, channel_concat gru_1_out gru_2_out)"
    using ConvGRUPlusBlock_call_stages
      [where self = "\<lparr>ConvGRUPlusBlock.conv1 = c1, gru1 = g1, gru2 = g2\<rparr>" and ?d1.0 = d1
         and ?d2.0 = d2 and gru_1_outE = gru_1_outE, OF assms(1) _ _ _ assms(3,6)]
      assms(2,4,5)
    by simp
  show ?thesis
    using split a b d assms(1) by simp
qed

theorem block_channel_split_invariant_witness:
  "dims state_10_20 = [1, 1, 1, 2 * 1]
   \<and> (\<exists>ht_11 ht_12. tf_split state_10_20 2 3 = Inr [ht_11, ht_12]
          \<and> dims ht_11 = [1, 1, 1, 1] \<and> dims ht_12 = [1, 1, 1, 1])
   \<and> (\<exists>xt ht. ConvGRUBlock_call \<lparr>ConvGRUBlock.conv1 = Inr, gru1 = keep_state, gru2 = keep_state\<rparr>
                 state_10_20 state_10_20 = Inr (xt, ht)
          \<and> dims ht = [1, 1, 1, 2])
   \<and> (\<exists>xt ht. ConvGRUPlusBlock_call \<lparr>ConvGRUPlusBlock.conv1 = Inr, gru1 = keep_state, gru2 = keep_state\<rparr>
                 state_10_20 state_10_20 = Inr (xt, ht)
          \<and> dims ht = [1, 1, 1, 2])"
  using block_channel_split_invariant [where state = state_10_20 and B = 1 and H = 1 and W = 1
      and F = 1 and ?g1.0 = keep_state and ?g2.0 = keep_state and ?c1.0 = Inr
      and inputs = state_10_20
      and gru_1_out = "channel_slab 0 1 state_10_20" and ?d1.0 = "channel_slab 0 1 state_10_20"
      and gru_1_outE = "channel_slab 0 1 state_10_20"
      and gru_2_out = "channel_slab 1 1 state_10_20" and ?d2.0 = "channel_slab 1 1 state_10_20"]
  by (simp add: state_10_20_def keep_state_def channel_slab_def)

text \<open>
  Claim C7. The two variants have the same wiring: a \<open>ConvGRUPlusBlock\<close> and a
  \<open>ConvGRUBlock\<close> whose \<open>gru1\<close>, \<open>gru2\<close> and \<open>conv1\<close> compute the same functions return the
  same result (the same output and new state, or the same error) on every input and
  state. The constructors build the intermediate convolution from the same arguments
  (Keras reading \<open>strides=1\<close> as the default \<open>(1, 1)\<close>) and hand the cells the same
  filter count and kernel size, so the variants differ in the cell class they
  instantiate, \<open>ConvGRUPlus\<close> for \<open>ConvGRU\<close>, and in nothing else.
\<close>

theorem block_variants_same_wiring:
  assumes "ConvGRUPlusBlock.conv1 p = ConvGRUBlock.conv1 b"
    and "ConvGRUPlusBlock.gru1 p = ConvGRUBlock.gru1 b"
    and "ConvGRUPlusBlock.gru2 p = ConvGRUBlock.gru2 b"
  shows "ConvGRUPlusBlock_call p inputs state = ConvGRUBlock_call b inputs state
       \<and> (ConvGRUPlusBlock_conv1_config flt ks)
            \<lparr>conv2d_config.strides := normalize_tuple (conv2d_config.strides (ConvGRUPlusBlock_conv1_config flt ks))\<rparr>
         = (ConvGRUBlock_conv1_config flt ks)
            \<lparr>conv2d_config.strides := normalize_tuple (conv2d_config.strides (ConvGRUBlock_conv1_config flt ks))\<rparr>
       \<and> ConvGRUPlusBlock_init lib flt ks
         = \<lparr>ConvGRUPlusBlock.conv1 = layers_lib.Conv2D lib 0 (ConvGRUPlusBlock_conv1_config flt ks),
            gru1 = ConvGRUPlus lib 1 flt (ConvGRUPlusBlock_kernel_size ks),
            gru2 = ConvGRUPlus lib 2 flt (ConvGRUPlusBlock_kernel_size ks)\<rparr>
       \<and> ConvGRUBlock_init lib flt ks
         = \<lparr>ConvGRUBlock.conv1 = layers_lib.Conv2D lib 0 (ConvGRUBlock_conv1_config flt ks),
            gru1 = ConvGRU lib 1 flt (ConvGRUPlusBlock_kernel_size ks),
            gru2 = ConvGRU lib 2 flt (ConvGRUPlusBlock_kernel_size ks)\<rparr>"
  using assms
  by (simp add: ConvGRUPlusBlock_call_def ConvGRUBlock_call_def
      ConvGRUPlusBlock_conv1_config_def ConvGRUBlock_conv1_config_def
      ConvGRUPlusBlock_kernel_size_def ConvGRUBlock_kernel_size_def
      ConvGRUPlusBlock_init_def ConvGRUBlock_init_def Conv2D_default_strides_def Let_def)

theorem block_variants_same_wiring_witness:
  "ConvGRUPlusBlock_call \<lparr>ConvGRUPlusBlock.conv1 = Inr, gru1 = keep_state, gru2 = keep_state\<rparr>
       state_10_20 state_10_20
     = ConvGRUBlock_call \<lparr>ConvGRUBlock.conv1 = Inr, gru1 = keep_state, gru2 = keep_state\<rparr>
       state_10_20 state_10_20
   \<and> ConvGRUPlusBlock_conv1_config 32 (PInt 5)
     = \<lparr>conv2d_config.filters = 32, kernel_size = PTuple [PInt 5, PInt 5], strides = PInt 1,
        activation = Tanh, padding = ''same'', data_format = ''channels_last''\<rparr>
   \<and> ConvGRUBlock_conv1_config 32 (PInt 5)
     = \<lparr>conv2d_config.filters = 32, kernel_size = PTuple [PInt 5, PInt 5], strides = PTuple [PInt 1, PInt 1],
        activation = Tanh, padding = ''same'', data_format = ''channels_last''\<rparr>"
  using block_variants_same_wiring
      [of "\<lparr>ConvGRUPlusBlock.conv1 = Inr, gru1 = keep_state, gru2 = keep_state\<rparr>"
          "\<lparr>ConvGRUBlock.conv1 = Inr, gru1 = keep_state, gru2 = keep_state\<rparr>"
          state_10_20 state_10_20 32 "PInt 5"
          "\<lparr>layers_lib.Conv2D = (\<lambda>n c. Inr), ConvGRU = (\<lambda>n f k. keep_state),
            ConvGRUPlus = (\<lambda>n f k. keep_state)\<rparr>"]
  by (simp add: ConvGRUPlusBlock_conv1_config_def ConvGRUBlock_conv1_config_def
      ConvGRUPlusBlock_kernel_size_def ConvGRUBlock_kernel_size_def Conv2D_default_strides_def)

section \<open>Properties of the encoding stage\<close>

lemma call_body_spec:
  assumes "i < length (batch_norms self)"
  shows "ConvEncodingLayer_call_body self i layer x training s
       = encoding_layer_spec layer (batch_norms self ! i) (ConvEncodingLayer.activation self)
           (dropout self) x training s"
  using assms
  by (simp add: ConvEncodingLayer_call_body_def encoding_layer_spec_def list_get_def)

lemma call_loop_in_sequence:
  assumes "i + length ls \<le> length (batch_norms self)"
  shows "ConvEncodingLayer_call_loop self i ls x training s
       = in_sequence
           (map (\<lambda>(k, l). encoding_layer_spec l (batch_norms self ! k)
                   (ConvEncodingLayer.activation self) (dropout self))
              (zip [i..<i + length ls] ls)) x training s"
  using assms
proof (induction ls arbitrary: i x s)
  case Nil
  then show ?case by simp
next
  case (Cons l ls)
  have i: "i < length (batch_norms self)" using Cons.prems by simp
  have r: "Suc i + length ls \<le> length (batch_norms self)" using Cons.prems by simp
  have u: "[i..<i + length (l # ls)] = i # [Suc i..<Suc i + length ls]"
    by (simp add: upt_rec)
  show ?case
    unfolding u
    by (simp add: call_body_spec [OF i] Cons.IH [OF r] bind_st_def split: sum.splits)
qed

lemma zip_upt_map:
  "map (\<lambda>(k, l). g k l) (zip [0..<N] (map f [0..<N])) = map (\<lambda>k. g k (f k)) [0..<N]"
  by (simp add: zip_map2 zip_same_conv_map)

lemma ConvEncodingLayer_call_spec:
  assumes "ConvEncodingLayer_init lib ks dks dflt flt n act_name bn rate st = Inr self"
  shows "ConvEncodingLayer_call self x training s
       = encoding_stage_spec lib (kernel_size self) (downsampling_kernel_size self)
           (downsampling_filters self) (filters self) (nat n)
           (ConvEncodingLayer.activation self) bn rate (strides self) x training s"
proof -
  obtain act where act: "get_activation lib act_name = Inr act"
    using assms by (auto simp: ConvEncodingLayer_init_def bind_err_def Let_def split: sum.splits)
  define ks' where "ks' = (if isinstance_int ks then PTuple [ks, ks] else ks)"
  have cl: "conv_layers self
      = map (\<lambda>i. Conv2D lib i (ConvEncodingLayer_conv_config flt ks')) [0..<nat n]"
    and bns: "batch_norms self
      = map (\<lambda>i. if bn then BatchNormalization lib i else identity_layer) [0..<nat n]"
    and dr: "dropout self = (case rate of None \<Rightarrow> identity_layer
                 | Some r \<Rightarrow> SpatialDropout2D lib r ''channels_last'')"
    and ds: "downsampling_layer self = DownsamplingLayer_init lib (nat n)
        (downsampling_filters self) (downsampling_kernel_size self)
        (ConvEncodingLayer.activation self) (strides self) bn"
    and k: "kernel_size self = ks'" and f: "filters self = flt"
    using assms act
    by (auto simp: ConvEncodingLayer_init_def bind_err_def Let_def ks'_def)
  have len: "0 + length (conv_layers self) \<le> length (batch_norms self)"
    by (simp add: cl bns)
  have loop: "ConvEncodingLayer_call_loop self 0 (conv_layers self) x training
       = in_sequence
          (map (\<lambda>i. encoding_layer_spec
                      (Conv2D lib i (ConvEncodingLayer_conv_config flt ks'))
                      (if bn then BatchNormalization lib i else identity_layer)
                      (ConvEncodingLayer.activation self)
                      (case rate of None \<Rightarrow> identity_layer
                       | Some r \<Rightarrow> SpatialDropout2D lib r ''channels_last''))
               [0..<nat n]) x training" for x
  proof
    fix s
    have "ConvEncodingLayer_call_loop self 0 (conv_layers self) x training s
      = in_sequence
           (map (\<lambda>(k, l). encoding_layer_spec l (batch_norms self ! k)
                   (ConvEncodingLayer.activation self) (dropout self))
              (zip [0..<0 + length (conv_layers self)] (conv_layers self))) x training s"
      by (rule call_loop_in_sequence [OF len])
    also have "(map (\<lambda>(k, l). encoding_layer_spec l (batch_norms self ! k)
                   (ConvEncodingLayer.activation self) (dropout self))
              (zip [0..<0 + length (conv_layers self)] (conv_layers self)))
       = map (\<lambda>k. encoding_layer_spec (Conv2D lib k (ConvEncodingLayer_conv_config flt ks'))
                 (batch_norms self ! k) (ConvEncodingLayer.activation self) (dropout self))
           [0..<nat n]"
      using zip_upt_map [of "\<lambda>k l. encoding_layer_spec l (batch_norms self ! k)
                   (ConvEncodingLayer.activation self) (dropout self)" "nat n"
                   "\<lambda>i. Conv2D lib i (ConvEncodingLayer_conv_config flt ks')"]
      by (simp add: cl)
    also have "\<dots> = map (\<lambda>i. encoding_layer_spec
                      (Conv2D lib i (ConvEncodingLayer_conv_config flt ks'))
                      (if bn then BatchNormalization lib i else identity_layer)
                      (ConvEncodingLayer.activation self)
                      (case rate of None \<Rightarrow> identity_layer
                       | Some r \<Rightarrow> SpatialDropout2D lib r ''channels_last''))
               [0..<nat n]"
      by (rule map_cong) (simp_all add: bns dr)
    finally show "ConvEncodingLayer_call_loop self 0 (conv_layers self) x training s
      = in_sequence
          (map (\<lambda>i. encoding_layer_spec
                      (Conv2D lib i (ConvEncodingLayer_conv_config flt ks'))
                      (if bn then BatchNormalization lib i else identity_layer)
                      (ConvEncodingLayer.activation self)
                      (case rate of None \<Rightarrow> identity_layer
                       | Some r \<Rightarrow> SpatialDropout2D lib r ''channels_last''))
               [0..<nat n]) x training s" .
  qed
  have down: "DownsamplingLayer_call (downsampling_layer self) y training
      = downsampling_spec
               (Conv2D lib (nat n) (DownsamplingLayer_conv_config (downsampling_filters self)
                   (downsampling_kernel_size self) (strides self)))
               (if bn then BatchNormalization lib (nat n) else identity_layer)
               (ConvEncodingLayer.activation self) y training" for y
    by (simp add: ds DownsamplingLayer_call_def DownsamplingLayer_init_def downsampling_spec_def)
  show ?thesis
    by (simp add: ConvEncodingLayer_call_def encoding_stage_spec_def loop down k f)
qed

lemma call_body_eq_skip_body:
  assumes "\<And>y s. ConvEncodingLayer.activation self y (Some training) s
                 = ConvEncodingLayer.activation self y None s"
  shows "ConvEncodingLayer_call_body self i layer x training s
       = ConvEncodingLayer_call_with_skip_connection_body self i layer x training s"
  by (simp add: ConvEncodingLayer_call_body_def
      ConvEncodingLayer_call_with_skip_connection_body_def bind_st_def assms
      split: sum.splits prod.splits)

lemma call_loop_eq_skip_loop:
  assumes "\<And>y s. ConvEncodingLayer.activation self y (Some training) s
                 = ConvEncodingLayer.activation self y None s"
  shows "ConvEncodingLayer_call_loop self i ls x training s
       = ConvEncodingLayer_call_with_skip_connection_loop self i ls x training s"
  by (induction ls arbitrary: i x s)
    (simp_all add: call_body_eq_skip_body [OF assms] split: sum.splits prod.splits)

text \<open>
  Claim C6. On a layer built by the constructor, \<open>call\<close> is the stage of the
  specification: for each \<open>i\<close> below the configured number of layers, in order, the
  \<open>i\<close>-th convolution, then the normalisation (\<open>BatchNormalization\<close> when \<open>batch_norm\<close> is
  on, the identity when it is off), then the configured activation, then the dropout
  (\<open>SpatialDropout2D\<close> when \<open>dropout_rate\<close> is set, the identity when it is unset); after
  these the downsampling stage, which applies its convolution (built with the layer's
  strides and \<open>SAME\<close> padding), then its own normalisation, then the same activation.
\<close>

theorem ConvEncodingLayer_call_order:
  assumes "ConvEncodingLayer_init lib ks dks dflt flt n act_name bn rate st = Inr self"
  shows "ConvEncodingLayer_call self x training s
           = encoding_stage_spec lib (kernel_size self) (downsampling_kernel_size self)
               (downsampling_filters self) (filters self) (nat n)
               (ConvEncodingLayer.activation self) bn rate (strides self) x training s
       \<and> length (conv_layers self) = nat n
       \<and> conv2d_config.padding (DownsamplingLayer_conv_config (downsampling_filters self)
            (downsampling_kernel_size self) (strides self)) = ''SAME''
       \<and> conv2d_config.strides (DownsamplingLayer_conv_config (downsampling_filters self)
            (downsampling_kernel_size self) (strides self)) = strides self"
proof -
  have "length (conv_layers self) = nat n"
    using assms
    by (auto simp: ConvEncodingLayer_init_def bind_err_def Let_def split: sum.splits)
  then show ?thesis
    using ConvEncodingLayer_call_spec [OF assms, of x training s]
    by (simp add: DownsamplingLayer_conv_config_def)
qed

theorem ConvEncodingLayer_call_order_witness:
  "\<exists>self. ConvEncodingLayer_init traced_lib (PInt 3) None None 32 2 ''relu'' True
             (Some (1 / 2)) (PInt 2) = Inr self
     \<and> ConvEncodingLayer_call self state_10_20 True []
         = Inr (channel_slab 0 1 state_10_20,
                [''conv'', ''norm'', ''activation'', ''dropout'',
                 ''conv'', ''norm'', ''activation'', ''dropout'',
                 ''strided conv'', ''norm'', ''activation''])"
proof -
  obtain self where i: "ConvEncodingLayer_init traced_lib (PInt 3) None None 32 2 ''relu'' True
      (Some (1 / 2)) (PInt 2) = Inr self"
    by (simp add: ConvEncodingLayer_init_def traced_lib_def bind_err_def Let_def)
  have a: "ConvEncodingLayer.activation self = (\<lambda>x training s. Inr (x, s @ [''activation'']))"
    and s: "strides self = PTuple [PInt 2, PInt 2]"
    using i by (auto simp: ConvEncodingLayer_init_def traced_lib_def bind_err_def Let_def)
  show ?thesis
    using ConvEncodingLayer_call_order [OF i, of state_10_20 True "[]"] i
    by (simp add: encoding_stage_spec_def upt_2 a s encoding_layer_spec_def
        downsampling_spec_def bind_st_def traced_lib_def ConvEncodingLayer_conv_config_def
        DownsamplingLayer_conv_config_def Conv2D_default_strides_def)
qed

text \<open>
  Claim C8. Take a layer whose activation object does not depend on the \<open>training\<close>
  keyword (it is a nonlinearity), an input, a training flag and a state of the run.
  \<open>call\<close> returns what \<open>call_with_skip_connection\<close> returns as second component
  (and raises what it raises), and when \<open>call_with_skip_connection\<close> returns the pair
  \<open>(pre_downsample_features, downsampled_features)\<close>, the first component is what the loop
  over the layers produced and the second is the downsampling stage applied to the first.
\<close>

theorem call_with_skip_connection_refines_call:
  assumes "\<And>y s. ConvEncodingLayer.activation self y (Some training) s
                 = ConvEncodingLayer.activation self y None s"
  shows "ConvEncodingLayer_call self x training s
          = (case ConvEncodingLayer_call_with_skip_connection self x training s of
               Inl e \<Rightarrow> Inl e
             | Inr ((pre_downsample_features, downsampled_features), s') \<Rightarrow>
                 Inr (downsampled_features, s'))
       \<and> (\<forall>pre_downsample_features downsampled_features s'.
            ConvEncodingLayer_call_with_skip_connection self x training s
              = Inr ((pre_downsample_features, downsampled_features), s')
            \<longrightarrow> (\<exists>s1. ConvEncodingLayer_call_with_skip_connection_loop self 0 (conv_layers self)
                        x training s = Inr (pre_downsample_features, s1)
                   \<and> DownsamplingLayer_call (downsampling_layer self) pre_downsample_features
                        training s1 = Inr (downsampled_features, s')))"
  by (auto simp: ConvEncodingLayer_call_def ConvEncodingLayer_call_with_skip_connection_def
      bind_st_def call_loop_eq_skip_loop [OF assms] split: sum.splits prod.splits)

theorem call_with_skip_connection_refines_call_witness:
  "\<exists>self. ConvEncodingLayer_init traced_lib (PInt 3) None None 32 1 ''relu'' False None (PInt 2)
             = Inr self
     \<and> ConvEncodingLayer_call_with_skip_connection self state_10_20 True []
         = Inr ((state_10_20, channel_slab 0 1 state_10_20),
                [''conv'', ''activation'', ''strided conv'', ''activation''])
     \<and> ConvEncodingLayer_call self state_10_20 True []
         = Inr (channel_slab 0 1 state_10_20,
                [''conv'', ''activation'', ''strided conv'', ''activation''])"
proof -
  obtain self where i: "ConvEncodingLayer_init traced_lib (PInt 3) None None 32 1 ''relu'' False
      None (PInt 2) = Inr self"
    by (simp add: ConvEncodingLayer_init_def traced_lib_def bind_err_def Let_def)
  have a: "ConvEncodingLayer.activation self = (\<lambda>x training s. Inr (x, s @ [''activation'']))"
    using i by (auto simp: ConvEncodingLayer_init_def traced_lib_def bind_err_def Let_def)
  have k: "ConvEncodingLayer_call_with_skip_connection self state_10_20 True []
         = Inr ((state_10_20, channel_slab 0 1 state_10_20),
                [''conv'', ''activation'', ''strided conv'', ''activation''])"
    using i
    by (auto simp: ConvEncodingLayer_init_def traced_lib_def bind_err_def Let_def
        ConvEncodingLayer_call_with_skip_connection_def bind_st_def
        ConvEncodingLayer_call_with_skip_connection_body_def list_get_def identity_layer_def
        DownsamplingLayer_call_def DownsamplingLayer_init_def ConvEncodingLayer_conv_config_def
        DownsamplingLayer_conv_config_def Conv2D_default_strides_def)
  show ?thesis
    using call_with_skip_connection_refines_call [of self True state_10_20 "[]"] i k
    by (simp add: a)
qed

text \<open>
  Claim C10. In the layer the constructor builds, the kernel size of the downsampling
  convolution is the argument \<open>kernel_size\<close> as it was passed when
  \<open>downsampling_kernel_size\<close> is \<open>None\<close>, and the pair
  \<open>(downsampling_kernel_size, downsampling_kernel_size)\<close> when it is set; its filter
  count is \<open>filters\<close> when \<open>downsampling_filters\<close> is \<open>None\<close>, and \<open>downsampling_filters\<close>
  otherwise.
\<close>

theorem downsampling_arguments:
  assumes "ConvEncodingLayer_init lib ks dks dflt flt n act_name bn rate st = Inr self"
  shows "downsampling_kernel_size self = (case dks of None \<Rightarrow> ks | Some k \<Rightarrow> PTuple [k, k])
       \<and> downsampling_filters self = (case dflt of None \<Rightarrow> flt | Some d \<Rightarrow> d)
       \<and> conv (downsampling_layer self)
           = Conv2D lib (nat n)
               (DownsamplingLayer_conv_config (downsampling_filters self)
                  (downsampling_kernel_size self) (strides self))
       \<and> conv2d_config.kernel_size
            (DownsamplingLayer_conv_config (downsampling_filters self)
               (downsampling_kernel_size self) (strides self))
           = (case dks of None \<Rightarrow> ks | Some k \<Rightarrow> PTuple [k, k])
       \<and> conv2d_config.filters
            (DownsamplingLayer_conv_config (downsampling_filters self)
               (downsampling_kernel_size self) (strides self))
           = (case dflt of None \<Rightarrow> flt | Some d \<Rightarrow> d)"
  using assms
  by (auto simp: ConvEncodingLayer_init_def bind_err_def Let_def DownsamplingLayer_init_def
      DownsamplingLayer_conv_config_def split: sum.splits)

theorem downsampling_arguments_witness:
  "(\<exists>self. ConvEncodingLayer_init traced_lib (PInt 3) None None 32 2 ''relu'' False None (PInt 2)
             = Inr self
      \<and> downsampling_kernel_size self = PInt 3 \<and> downsampling_filters self = 32
      \<and> kernel_size self = PTuple [PInt 3, PInt 3])
   \<and> (\<exists>self. ConvEncodingLayer_init traced_lib (PInt 3) (Some (PInt 5)) (Some 16) 32 2 ''relu''
               False None (PInt 2) = Inr self
      \<and> downsampling_kernel_size self = PTuple [PInt 5, PInt 5]
      \<and> downsampling_filters self = 16)"
proof -
  obtain a where a: "ConvEncodingLayer_init traced_lib (PInt 3) None None 32 2 ''relu'' False
      None (PInt 2) = Inr a"
    by (simp add: ConvEncodingLayer_init_def traced_lib_def bind_err_def Let_def)
  obtain b where b: "ConvEncodingLayer_init traced_lib (PInt 3) (Some (PInt 5)) (Some 16) 32 2
      ''relu'' False None (PInt 2) = Inr b"
    by (simp add: ConvEncodingLayer_init_def traced_lib_def bind_err_def Let_def)
  have k: "kernel_size a = PTuple [PInt 3, PInt 3]"
    using a by (auto simp: ConvEncodingLayer_init_def traced_lib_def bind_err_def Let_def)
  show ?thesis
    using downsampling_arguments [OF a] downsampling_arguments [OF b] a b k
    by auto
qed

section \<open>Properties of the training script\<close>

subsection \<open>Operands of rank 0\<close>

lemma broadcast_shape_Nil_right: "broadcast_shape ds [] = Some ds"
  by (cases "rev ds") (simp_all add: broadcast_shape_def rev_swap [symmetric])

lemma broadcast_shape_Nil_left: "broadcast_shape [] ds = Some ds"
  by (simp add: broadcast_shape_def)

lemma bc_index_Nil: "bc_index [] idx = []"
  by (simp add: bc_index_def)

lemma bc_pos_id: "i < d \<Longrightarrow> bc_pos d i = i"
  by (auto simp: bc_pos_def)

lemma tf_binop_scalar_right:
  "tf_binop f t (scalar c)
     = Inr \<lparr>dims = dims t, elem = (\<lambda>idx. f (elem t (bc_index (dims t) idx)) (Fin c))\<rparr>"
  by (simp add: tf_binop_def scalar_def broadcast_shape_Nil_right)

lemma tf_binop_scalar_left:
  "tf_binop f (scalar c) t
     = Inr \<lparr>dims = dims t, elem = (\<lambda>idx. f (Fin c) (elem t (bc_index (dims t) idx)))\<rparr>"
  by (simp add: tf_binop_def scalar_def broadcast_shape_Nil_left)

lemmas tf_scalar_ops =
  tf_binop_scalar_right [of fadd, folded tf_add_def]
  tf_binop_scalar_right [of fdiv, folded tf_div_def]
  tf_binop_scalar_left [of fmul, folded tf_mul_def]

subsection \<open>Choosing the weights\<close>

lemma main_wt_recognized:
  assumes "time_weights a \<in> {''uniform'', ''linear'', ''quadratic''}"
  shows "\<exists>wt. main_wt a = Inr wt \<and> dims wt = [steps a, 1]"
  using assms
  by (auto simp: main_wt_def bind_err_def tf_scalar_ops newaxis_last_def tf_ones_def
      tf_range_def tf_square_def tf_map_def)

lemma main_wt_unrecognized:
  assumes "time_weights a \<notin> {''uniform'', ''linear'', ''quadratic''}"
  shows "main_wt a
       = Inl (ValueError ''time_weights must be in ['uniform', 'linear', 'quadratic']'')"
  using assms by (simp add: main_wt_def)

lemma main_wk_cases:
  "kappa_residual_weights a \<in> {''uniform'', ''linear'', ''quadratic'', ''sqrt''}
     \<Longrightarrow> \<exists>wk. main_wk a = Inr wk"
  "kappa_residual_weights a \<notin> {''uniform'', ''linear'', ''quadratic'', ''sqrt''}
     \<Longrightarrow> main_wk a = Inl (ValueError
           ''kappa_residual_weights must be in ['uniform', 'linear', 'quadratic', 'sqrt']'')"
  by (auto simp: main_wk_def)

lemma main_ws_cases:
  "source_residual_weights a \<in> {''uniform'', ''linear'', ''quadratic'', ''sqrt''}
     \<Longrightarrow> \<exists>ws. main_ws a = Inr ws"
  "source_residual_weights a \<notin> {''uniform'', ''linear'', ''quadratic'', ''sqrt''}
     \<Longrightarrow> main_ws a = Inl (ValueError
           ''kappa_residual_weights must be in ['uniform', 'linear', 'quadratic', 'sqrt']'')"
  by (auto simp: main_ws_def)

lemma main_unrecognized:
  assumes "time_weights a \<notin> {''uniform'', ''linear'', ''quadratic''}
         \<or> kappa_residual_weights a \<notin> {''uniform'', ''linear'', ''quadratic'', ''sqrt''}
         \<or> source_residual_weights a \<notin> {''uniform'', ''linear'', ''quadratic'', ''sqrt''}"
  shows "\<exists>msg. main a env = (initial_state a, Some (ValueError msg))"
proof (cases "time_weights a \<in> {''uniform'', ''linear'', ''quadratic''}")
  case False
  then show ?thesis by (simp add: main_def main_wt_unrecognized)
next
  case t: True
  then obtain wt where wt: "main_wt a = Inr wt" using main_wt_recognized by blast
  show ?thesis
  proof (cases "kappa_residual_weights a \<in> {''uniform'', ''linear'', ''quadratic'', ''sqrt''}")
    case False
    then show ?thesis by (simp add: main_def wt main_wk_cases(2))
  next
    case k: True
    then obtain wk where wk: "main_wk a = Inr wk" using main_wk_cases(1) by blast
    have "source_residual_weights a \<notin> {''uniform'', ''linear'', ''quadratic'', ''sqrt''}"
      using assms t k by blast
    then show ?thesis by (simp add: main_def wt wk main_ws_cases(2))
  qed
qed

text \<open>
  Claim C5. A time-weighting name other than \<open>uniform\<close>, \<open>linear\<close>, \<open>quadratic\<close>, and a
  residual-weighting name, for kappa or for the source, other than \<open>uniform\<close>, \<open>linear\<close>,
  \<open>quadratic\<close>, \<open>sqrt\<close>, makes its selection raise \<open>ValueError\<close>. With any such name \<open>main\<close>
  ends with a \<open>ValueError\<close> in the state the loop would have started from: no training
  step was taken and no epoch was run. A recognized name makes its selection return the
  weights.
\<close>

theorem weighting_scheme_selection:
  "(time_weights a \<notin> {''uniform'', ''linear'', ''quadratic''}
      \<longrightarrow> main_wt a
            = Inl (ValueError ''time_weights must be in ['uniform', 'linear', 'quadratic']''))
   \<and> (kappa_residual_weights a \<notin> {''uniform'', ''linear'', ''quadratic'', ''sqrt''}
      \<longrightarrow> main_wk a = Inl (ValueError
            ''kappa_residual_weights must be in ['uniform', 'linear', 'quadratic', 'sqrt']''))
   \<and> (source_residual_weights a \<notin> {''uniform'', ''linear'', ''quadratic'', ''sqrt''}
      \<longrightarrow> main_ws a = Inl (ValueError
            ''kappa_residual_weights must be in ['uniform', 'linear', 'quadratic', 'sqrt']''))
   \<and> (time_weights a \<notin> {''uniform'', ''linear'', ''quadratic''}
        \<or> kappa_residual_weights a \<notin> {''uniform'', ''linear'', ''quadratic'', ''sqrt''}
        \<or> source_residual_weights a \<notin> {''uniform'', ''linear'', ''quadratic'', ''sqrt''}
      \<longrightarrow> (\<exists>msg. snd (main a env) = Some (ValueError msg))
          \<and> step (fst (main a env)) = 0
          \<and> history (fst (main a env)) = []
          \<and> saved_at (fst (main a env)) = [])
   \<and> (time_weights a \<in> {''uniform'', ''linear'', ''quadratic''}
      \<longrightarrow> (\<exists>wt. main_wt a = Inr wt))
   \<and> (kappa_residual_weights a \<in> {''uniform'', ''linear'', ''quadratic'', ''sqrt''}
      \<longrightarrow> (\<exists>wk. main_wk a = Inr wk))
   \<and> (source_residual_weights a \<in> {''uniform'', ''linear'', ''quadratic'', ''sqrt''}
      \<longrightarrow> (\<exists>ws. main_ws a = Inr ws))"
proof -
  have "(\<exists>msg. snd (main a env) = Some (ValueError msg))
          \<and> step (fst (main a env)) = 0
          \<and> history (fst (main a env)) = []
          \<and> saved_at (fst (main a env)) = []"
    if bad: "time_weights a \<notin> {''uniform'', ''linear'', ''quadratic''}
        \<or> kappa_residual_weights a \<notin> {''uniform'', ''linear'', ''quadratic'', ''sqrt''}
        \<or> source_residual_weights a \<notin> {''uniform'', ''linear'', ''quadratic'', ''sqrt''}"
  proof -
    obtain msg where "main a env = (initial_state a, Some (ValueError msg))"
      using main_unrecognized [OF bad] by blast
    then show ?thesis by (simp add: initial_state_def)
  qed
  then show ?thesis
    using main_wt_unrecognized [of a] main_wk_cases [of a] main_ws_cases [of a]
      main_wt_recognized [of a]
    by blast
qed

theorem weighting_scheme_selection_witness:
  "main_wt (args_0\<lparr>time_weights := ''cubic''\<rparr>)
     = Inl (ValueError ''time_weights must be in ['uniform', 'linear', 'quadratic']'')
   \<and> snd (main (args_0\<lparr>time_weights := ''cubic''\<rparr>) (env_val_cost (\<lambda>e. Fin 1)))
     = Some (ValueError ''time_weights must be in ['uniform', 'linear', 'quadratic']'')
   \<and> step (fst (main (args_0\<lparr>time_weights := ''cubic''\<rparr>) (env_val_cost (\<lambda>e. Fin 1)))) = 0
   \<and> (\<exists>msg. snd (main (args_0\<lparr>source_residual_weights := ''log''\<rparr>) (env_val_cost (\<lambda>e. Fin 1)))
              = Some (ValueError msg))
   \<and> (\<exists>wt. main_wt args_0 = Inr wt)
   \<and> (\<exists>wk. main_wk (args_0\<lparr>kappa_residual_weights := ''sqrt''\<rparr>) = Inr wk)
   \<and> snd (main args_0 (env_val_cost (\<lambda>e. Fin 1))) = None
   \<and> step (fst (main args_0 (env_val_cost (\<lambda>e. Fin 1)))) = 9"
proof -
  have u: "[0..<3] = [0, 1, 2]"
    by (simp add: upt_rec)
  have run: "snd (main args_0 (env_val_cost (\<lambda>e. Fin 1))) = None
      \<and> step (fst (main args_0 (env_val_cost (\<lambda>e. Fin 1)))) = 9"
    by (simp add: main_def args_0_def env_val_cost_def tracked_cost_def main_wt_def main_wk_def
        main_ws_def bind_err_def tf_scalar_ops u Let_def update_patience_def
        save_checkpoint_branch_def initial_state_def fsub_def)
  have cubic: "snd (main (args_0\<lparr>time_weights := ''cubic''\<rparr>) (env_val_cost (\<lambda>e. Fin 1)))
     = Some (ValueError ''time_weights must be in ['uniform', 'linear', 'quadratic']'')"
    by (simp add: main_def main_wt_def args_0_def)
  show ?thesis
    using weighting_scheme_selection
        [of "args_0\<lparr>time_weights := ''cubic''\<rparr>" "env_val_cost (\<lambda>e. Fin 1)"]
      weighting_scheme_selection
        [of "args_0\<lparr>source_residual_weights := ''log''\<rparr>" "env_val_cost (\<lambda>e. Fin 1)"]
      weighting_scheme_selection
        [of "args_0\<lparr>kappa_residual_weights := ''sqrt''\<rparr>" "env_val_cost (\<lambda>e. Fin 1)"]
      weighting_scheme_selection [of args_0 "env_val_cost (\<lambda>e. Fin 1)"] run cubic
    by (simp add: args_0_def)
qed

subsection \<open>The loop and a cost that is not a number\<close>











subsection \<open>Sums of floating-point values\<close>

lemma fsum_Nil [simp]: "fsum [] = Fin 0"
  by (simp add: fsum_def)

lemma fsum_Cons [simp]: "fsum (x # xs) = fadd x (fsum xs)"
  by (simp add: fsum_def)



lemma fsum_cong:
  assumes "\<And>i. i < n \<Longrightarrow> f i = g i"
  shows "fsum (map f [0..<n]) = fsum (map g [0..<n])"
proof -
  have "map f [0..<n] = map g [0..<n]"
    by (rule map_cong) (simp_all add: assms)
  then show ?thesis by (rule arg_cong)
qed




lemma broadcast_dim_simps [simp]:
  "broadcast_dim a a = Some a" "broadcast_dim a 1 = Some a" "broadcast_dim 1 b = Some b"
  "broadcast_dim a (Suc 0) = Some a" "broadcast_dim (Suc 0) b = Some b"
  by (auto simp: broadcast_dim_def)

lemma bc_pos_1 [simp]: "bc_pos (Suc 0) i = 0" "bc_pos 1 i = 0"
  by (auto simp: bc_pos_def)

lemma reduce_sum_123_keep:
  assumes "dims t = [B, H, W, C]"
  shows "\<exists>r. tf_reduce_sum t [1, 2, 3] True = Inr r \<and> dims r = [B, 1, 1, 1]
           \<and> (\<forall>b x y z. elem r [b, x, y, z] = pixel_sum (\<lambda>i j c. elem t [b, i, j, c]) H W C)"
  using assms
  by (simp add: tf_reduce_sum_def reduce_axis_def Let_def pixel_sum_def)


lemma tf_binop_per_sample:
  assumes "dims n = [B, H, W, C]" and "dims den = [B, 1, 1, 1]"
  shows "\<exists>w. tf_binop f n den = Inr w \<and> dims w = [B, H, W, C]
          \<and> (\<forall>b i j c. b < B \<longrightarrow> i < H \<longrightarrow> j < W \<longrightarrow> c < C \<longrightarrow>
                elem w [b, i, j, c] = f (elem n [b, i, j, c]) (elem den [b, 0, 0, 0]))"
  using assms
  by (simp add: tf_binop_def broadcast_shape_def bc_index_def bc_pos_id)

lemma pixel_sum_cong:
  assumes "\<And>i j c. i < H \<Longrightarrow> j < W \<Longrightarrow> c < C \<Longrightarrow> f i j c = g i j c"
  shows "pixel_sum f H W C = pixel_sum g H W C"
  unfolding pixel_sum_def
  by (intro fsum_cong) (simp add: assms)






subsection \<open>The weights are normalised\<close>

lemma bc_index_1 [simp]: "t < T \<Longrightarrow> bc_index [T] [t] = [t]"
  by (simp add: bc_index_def bc_pos_id)











lemma main_wk_lambda:
  "kappa_residual_weights a \<in> {''uniform'', ''linear'', ''quadratic'', ''sqrt''}
     \<Longrightarrow> main_wk a = Inr (residual_lambda (kappa_residual_weights a))"
  by (auto simp: main_wk_def residual_lambda_def)

lemma main_ws_lambda:
  "source_residual_weights a \<in> {''uniform'', ''linear'', ''quadratic'', ''sqrt''}
     \<Longrightarrow> main_ws a = Inr (residual_lambda (source_residual_weights a))"
  by (auto simp: main_ws_def residual_lambda_def)



subsection \<open>The cost of a training step\<close>

lemma tf_binop_series_truth:
  assumes "dims s = [T, B, H, W, C]" and "dims x = [B, H, W, C]"
  shows "\<exists>r. tf_binop f s x = Inr r \<and> dims r = [T, B, H, W, C]
          \<and> (\<forall>t b i j c. t < T \<longrightarrow> b < B \<longrightarrow> i < H \<longrightarrow> j < W \<longrightarrow> c < C \<longrightarrow>
                elem r [t, b, i, j, c] = f (elem s [t, b, i, j, c]) (elem x [b, i, j, c]))"
  using assms
  by (simp add: tf_binop_def broadcast_shape_def bc_index_def bc_pos_id)

lemma tf_binop_truth_series:
  assumes "dims x = [B, H, W, C]" and "dims s = [T, B, H, W, C]"
  shows "\<exists>r. tf_binop f x s = Inr r \<and> dims r = [T, B, H, W, C]
          \<and> (\<forall>t b i j c. t < T \<longrightarrow> b < B \<longrightarrow> i < H \<longrightarrow> j < W \<longrightarrow> c < C \<longrightarrow>
                elem r [t, b, i, j, c] = f (elem x [b, i, j, c]) (elem s [t, b, i, j, c]))"
  using assms
  by (simp add: tf_binop_def broadcast_shape_def bc_index_def bc_pos_id)

lemma reduce_sum_234:
  assumes "dims x = [T, B, H, W, C]"
  shows "\<exists>r. tf_reduce_sum x [2, 3, 4] False = Inr r \<and> dims r = [T, B]
          \<and> (\<forall>t b. elem r [t, b] = pixel_sum (\<lambda>i j c. elem x [t, b, i, j, c]) H W C)"
  using assms
  by (simp add: tf_reduce_sum_def reduce_axis_def squeeze_axes_def Let_def pixel_sum_def)

lemma tf_binop_time:
  assumes "dims wt = [T, 1]" and "dims x = [T, B]"
  shows "\<exists>r. tf_binop f wt x = Inr r \<and> dims r = [T, B]
          \<and> (\<forall>t b. t < T \<longrightarrow> b < B \<longrightarrow> elem r [t, b] = f (elem wt [t, 0]) (elem x [t, b]))"
  using assms
  by (simp add: tf_binop_def broadcast_shape_def bc_index_def bc_pos_id)

lemma reduce_sum_0:
  assumes "dims x = [T, B]"
  shows "\<exists>r. tf_reduce_sum x [0] False = Inr r \<and> dims r = [B]
          \<and> (\<forall>b. elem r [b] = fsum (map (\<lambda>t. elem x [t, b]) [0..<T]))"
  using assms
  by (simp add: tf_reduce_sum_def reduce_axis_def squeeze_axes_def Let_def)

lemma tf_binop_batch:
  assumes "dims x = [B]" and "dims y = [B]"
  shows "\<exists>r. tf_binop f x y = Inr r \<and> dims r = [B]
          \<and> (\<forall>b. b < B \<longrightarrow> elem r [b] = f (elem x [b]) (elem y [b]))"
  using assms
  by (simp add: tf_binop_def broadcast_shape_def bc_index_def bc_pos_id)

lemma reduce_sum_all_1:
  assumes "dims x = [B]"
  shows "\<exists>r. tf_reduce_sum x [0..<length (dims x)] False = Inr r \<and> dims r = []
          \<and> elem r [] = fsum (map (\<lambda>b. elem x [b]) [0..<B])"
  using assms
  by (simp add: tf_reduce_sum_def reduce_axis_def squeeze_axes_def Let_def)

lemma tf_div_scalar_0:
  assumes "dims x = []"
  shows "\<exists>r. tf_div x (scalar c) = Inr r \<and> dims r = [] \<and> elem r [] = fdiv (elem x []) (Fin c)"
  using assms by (simp add: tf_scalar_ops bc_index_Nil)

lemma cost1_lemma:
  assumes s: "dims series = [T, B, H, W, C]" and x: "dims truth_link = [B, H, W, C]"
    and w: "dims w = [B, H, W, C]"
  shows "\<exists>res weighted cost1.
           tf_sub series truth_link = Inr res
         \<and> tf_mul w (tf_square res) = Inr weighted
         \<and> tf_reduce_sum weighted [2, 3, 4] False = Inr cost1
         \<and> dims cost1 = [T, B]
         \<and> (\<forall>t b. t < T \<longrightarrow> b < B \<longrightarrow>
               elem cost1 [t, b] = weighted_residual w series truth_link H W C t b)"
proof -
  obtain res where res: "tf_sub series truth_link = Inr res" "dims res = [T, B, H, W, C]"
    and rese: "\<And>t b i j c. t < T \<Longrightarrow> b < B \<Longrightarrow> i < H \<Longrightarrow> j < W \<Longrightarrow> c < C \<Longrightarrow>
         elem res [t, b, i, j, c] = fsub (elem series [t, b, i, j, c]) (elem truth_link [b, i, j, c])"
    using tf_binop_series_truth [OF s x, of fsub] unfolding tf_sub_def by blast
  have sq: "dims (tf_square res) = [T, B, H, W, C]"
    by (simp add: tf_square_def tf_map_def res(2))
  obtain weighted where wd: "tf_mul w (tf_square res) = Inr weighted"
    "dims weighted = [T, B, H, W, C]"
    and wde: "\<And>t b i j c. t < T \<Longrightarrow> b < B \<Longrightarrow> i < H \<Longrightarrow> j < W \<Longrightarrow> c < C \<Longrightarrow>
         elem weighted [t, b, i, j, c]
           = fmul (elem w [b, i, j, c]) (elem (tf_square res) [t, b, i, j, c])"
    using tf_binop_truth_series [OF w sq, of fmul] unfolding tf_mul_def by blast
  obtain cost1 where c1: "tf_reduce_sum weighted [2, 3, 4] False = Inr cost1" "dims cost1 = [T, B]"
    and c1e: "\<And>t b. elem cost1 [t, b] = pixel_sum (\<lambda>i j c. elem weighted [t, b, i, j, c]) H W C"
    using reduce_sum_234 [OF wd(2)] by blast
  have "elem cost1 [t, b] = weighted_residual w series truth_link H W C t b"
    if "t < T" "b < B" for t b
    unfolding c1e weighted_residual_def
    by (rule pixel_sum_cong) (simp add: wde rese that tf_square_def tf_map_def)
  then show ?thesis using res wd c1 by blast
qed

lemma timed_lemma:
  assumes wt: "dims wt = [T, 1]" and c: "dims cost1 = [T, B]"
  shows "\<exists>timed fc. tf_mul wt cost1 = Inr timed \<and> tf_reduce_sum timed [0] False = Inr fc
          \<and> dims fc = [B]
          \<and> (\<forall>b. b < B \<longrightarrow>
                elem fc [b] = fsum (map (\<lambda>t. fmul (elem wt [t, 0]) (elem cost1 [t, b])) [0..<T]))"
proof -
  obtain timed where t: "tf_mul wt cost1 = Inr timed" "dims timed = [T, B]"
    and te: "\<And>t b. t < T \<Longrightarrow> b < B \<Longrightarrow> elem timed [t, b] = fmul (elem wt [t, 0]) (elem cost1 [t, b])"
    using tf_binop_time [OF wt c, of fmul] unfolding tf_mul_def by blast
  obtain fc where f: "tf_reduce_sum timed [0] False = Inr fc" "dims fc = [B]"
    and fe: "\<And>b. elem fc [b] = fsum (map (\<lambda>t. elem timed [t, b]) [0..<T])"
    using reduce_sum_0 [OF t(2)] by blast
  have "elem fc [b] = fsum (map (\<lambda>t. fmul (elem wt [t, 0]) (elem cost1 [t, b])) [0..<T])"
    if "b < B" for b
    unfolding fe by (rule fsum_cong) (simp add: te that)
  then show ?thesis using t f by blast
qed

lemma train_step_cost_formula:
  assumes ss: "dims source_series = [T, B, Hs, Ws, Cs]"
    and sl: "dims (source_inverse_link rim source) = [B, Hs, Ws, Cs]"
    and sw: "ws source = Inr ws_source" "dims ws_source = [B, Hs, Ws, Cs]"
    and ks: "dims kappa_series = [T, B, Hk, Wk, Ck]"
    and kl: "dims (kappa_inverse_link rim kappa) = [B, Hk, Wk, Ck]"
    and kw: "wk kappa = Inr wk_kappa" "dims wk_kappa = [B, Hk, Wk, Ck]"
    and wt: "dims wt = [T, 1]"
  shows "\<exists>source_cost1 kappa_cost1 cost.
           train_step_cost a rim wt wk ws source kappa source_series kappa_series
             = Inr (source_cost1, kappa_cost1, cost)
         \<and> dims source_cost1 = [T, B] \<and> dims kappa_cost1 = [T, B]
         \<and> dims cost = []
         \<and> elem cost []
             = fdiv (fsum (map (\<lambda>b.
                   fadd (field_cost wt wk_kappa kappa_series (kappa_inverse_link rim kappa)
                           T Hk Wk Ck b)
                        (field_cost wt ws_source source_series (source_inverse_link rim source)
                           T Hs Ws Cs b))
                   [0..<B]))
                 (Fin (real_of_int (batch_size a)))"
proof -
  obtain sres sweighted scost1 where s1: "tf_sub source_series (source_inverse_link rim source) = Inr sres"
      "tf_mul ws_source (tf_square sres) = Inr sweighted"
      "tf_reduce_sum sweighted [2, 3, 4] False = Inr scost1" "dims scost1 = [T, B]"
    and s1e: "\<And>t b. t < T \<Longrightarrow> b < B \<Longrightarrow> elem scost1 [t, b]
        = weighted_residual ws_source source_series (source_inverse_link rim source) Hs Ws Cs t b"
    using cost1_lemma [OF ss sl sw(2)] by blast
  obtain kres kweighted kcost1 where k1: "tf_sub kappa_series (kappa_inverse_link rim kappa) = Inr kres"
      "tf_mul wk_kappa (tf_square kres) = Inr kweighted"
      "tf_reduce_sum kweighted [2, 3, 4] False = Inr kcost1" "dims kcost1 = [T, B]"
    and k1e: "\<And>t b. t < T \<Longrightarrow> b < B \<Longrightarrow> elem kcost1 [t, b]
        = weighted_residual wk_kappa kappa_series (kappa_inverse_link rim kappa) Hk Wk Ck t b"
    using cost1_lemma [OF ks kl kw(2)] by blast
  obtain stimed scost where s2: "tf_mul wt scost1 = Inr stimed"
      "tf_reduce_sum stimed [0] False = Inr scost" "dims scost = [B]"
    and s2e: "\<And>b. b < B \<Longrightarrow>
        elem scost [b] = fsum (map (\<lambda>t. fmul (elem wt [t, 0]) (elem scost1 [t, b])) [0..<T])"
    using timed_lemma [OF wt s1(4)] by blast
  obtain ktimed kcost where k2: "tf_mul wt kcost1 = Inr ktimed"
      "tf_reduce_sum ktimed [0] False = Inr kcost" "dims kcost = [B]"
    and k2e: "\<And>b. b < B \<Longrightarrow>
        elem kcost [b] = fsum (map (\<lambda>t. fmul (elem wt [t, 0]) (elem kcost1 [t, b])) [0..<T])"
    using timed_lemma [OF wt k1(4)] by blast
  obtain both where b: "tf_add kcost scost = Inr both" "dims both = [B]"
    and be: "\<And>b. b < B \<Longrightarrow> elem both [b] = fadd (elem kcost [b]) (elem scost [b])"
    using tf_binop_batch [OF k2(3) s2(3), of fadd] unfolding tf_add_def by blast
  obtain total where t: "tf_reduce_sum both [0..<length (dims both)] False = Inr total"
      "dims total = []"
    and te: "elem total [] = fsum (map (\<lambda>b. elem both [b]) [0..<B])"
    using reduce_sum_all_1 [OF b(2)] by blast
  obtain cost where c: "tf_div total (scalar (real_of_int (batch_size a))) = Inr cost"
      "dims cost = []"
    and ce: "elem cost [] = fdiv (elem total []) (Fin (real_of_int (batch_size a)))"
    using tf_div_scalar_0 [OF t(2)] by blast
  have run: "train_step_cost a rim wt wk ws source kappa source_series kappa_series
             = Inr (scost1, kcost1, cost)"
    using t(1) by (simp add: train_step_cost_def bind_err_def sw kw s1 k1 s2 k2 b c)
  have sf: "elem scost [b] = field_cost wt ws_source source_series (source_inverse_link rim source)
                           T Hs Ws Cs b" if "b < B" for b
    unfolding s2e [OF that] field_cost_def
    by (rule fsum_cong) (simp add: s1e that)
  have kf: "elem kcost [b] = field_cost wt wk_kappa kappa_series (kappa_inverse_link rim kappa)
                           T Hk Wk Ck b" if "b < B" for b
    unfolding k2e [OF that] field_cost_def
    by (rule fsum_cong) (simp add: k1e that)
  have "elem total [] = fsum (map (\<lambda>b.
                   fadd (field_cost wt wk_kappa kappa_series (kappa_inverse_link rim kappa)
                           T Hk Wk Ck b)
                        (field_cost wt ws_source source_series (source_inverse_link rim source)
                           T Hs Ws Cs b))
                   [0..<B])"
    unfolding te by (rule fsum_cong) (simp add: be sf kf)
  then show ?thesis using run c(2) ce s1(4) k1(4) by simp
qed

lemma residual_lambda_shape:
  assumes name: "name \<in> {''uniform'', ''linear'', ''quadratic'', ''sqrt''}"
    and k: "dims k = [B, H, W, C]"
  shows "\<exists>w. residual_lambda name k = Inr w \<and> dims w = [B, H, W, C]"
proof -
  have frac: "\<exists>w. bind_err (tf_reduce_sum n [1, 2, 3] True) (\<lambda>total. tf_div n total) = Inr w
                \<and> dims w = [B, H, W, C]" if n: "dims n = [B, H, W, C]" for n
  proof -
    obtain den where den: "tf_reduce_sum n [1, 2, 3] True = Inr den" "dims den = [B, 1, 1, 1]"
      using reduce_sum_123_keep [OF n] by blast
    obtain w where "tf_div n den = Inr w" "dims w = [B, H, W, C]"
      using tf_binop_per_sample [OF n den(2), of fdiv] unfolding tf_div_def by blast
    then show ?thesis using den(1) by (simp add: bind_err_def)
  qed
  consider "name = ''uniform''" | "name = ''linear''" | "name = ''sqrt''" | "name = ''quadratic''"
    using name by auto
  then show ?thesis
  proof cases
    case 1
    then show ?thesis
      by (simp add: residual_lambda_def lambda_uniform_def tf_scalar_ops tf_ones_def k)
  next
    case 2
    then show ?thesis
      using frac [OF k] by (simp add: residual_lambda_def lambda_linear_def)
  next
    case 3
    have "dims (tf_sqrt k) = [B, H, W, C]" by (simp add: tf_sqrt_def tf_map_def k)
    then show ?thesis
      using frac 3 by (simp add: residual_lambda_def lambda_sqrt_def)
  next
    case 4
    have "dims (tf_square k) = [B, H, W, C]" by (simp add: tf_square_def tf_map_def k)
    then show ?thesis
      using frac 4 by (simp add: residual_lambda_def lambda_quadratic_def)
  qed
qed

lemma tf_reduce_sum_all:
  "\<exists>r. tf_reduce_sum x [0..<length (dims x)] False = Inr r"
  by (simp add: tf_reduce_sum_def list_ex_iff)

lemma tf_last_nonempty:
  assumes "dims x = Suc d # ds"
  shows "\<exists>r. tf_last x = Inr r"
  using assms by (simp add: tf_last_def)

lemma metric_returns:
  assumes "dims x = Suc d # ds"
  shows "\<exists>r. bind_err (tf_last x) (\<lambda>l.
           bind_err (tf_reduce_sum l [0..<length (dims l)] False) (\<lambda>t.
           bind_err (tf_div t (scalar c)) f)) = f r"
proof -
  obtain l where l: "tf_last x = Inr l" using tf_last_nonempty [OF assms] by blast
  obtain t where t: "tf_reduce_sum l [0..<length (dims l)] False = Inr t"
    using tf_reduce_sum_all by blast
  show ?thesis
    by (auto simp: bind_err_def l t tf_scalar_ops)
qed

lemma train_step_returns:
  assumes c: "(if unroll_time_steps a then call_function rim X noise_rms psf
            else call rim X noise_rms psf) = Inr (source_series, kappa_series, chi_squared)"
    and r: "train_step_cost a rim wt wk ws source kappa source_series kappa_series
           = Inr (source_cost1, kappa_cost1, cost)"
    and d: "dims chi_squared = Suc d # ds" "dims source_cost1 = Suc T # ss"
      "dims kappa_cost1 = Suc T # ks"
  shows "\<exists>chi sc kc. train_step a rim wt wk ws X source kappa noise_rms psf
           = Inr (cost, chi, sc, kc)"
proof -
  define f3 where "f3 = (\<lambda>chi sc (kc :: flt tensor).
      (Inr (cost, chi, sc, kc) :: error + flt tensor \<times> flt tensor \<times> flt tensor \<times> flt tensor))"
  define f2 where "f2 = (\<lambda>chi (sc :: flt tensor).
      bind_err (tf_last kappa_cost1) (\<lambda>kappa_last.
      bind_err (tf_reduce_sum kappa_last [0..<length (dims kappa_last)] False) (\<lambda>kappa_total.
      bind_err (tf_div kappa_total (scalar (real_of_int (batch_size a)))) (f3 chi sc))))"
  define f1 where "f1 = (\<lambda>chi :: flt tensor.
      bind_err (tf_last source_cost1) (\<lambda>source_last.
      bind_err (tf_reduce_sum source_last [0..<length (dims source_last)] False) (\<lambda>source_total.
      bind_err (tf_div source_total (scalar (real_of_int (batch_size a)))) (f2 chi))))"
  have ts: "train_step a rim wt wk ws X source kappa noise_rms psf
      = bind_err (tf_last chi_squared) (\<lambda>chi_last.
        bind_err (tf_reduce_sum chi_last [0..<length (dims chi_last)] False) (\<lambda>chi_total.
        bind_err (tf_div chi_total (scalar (real_of_int (batch_size a)))) f1))"
    unfolding train_step_def c
    by (simp add: bind_err_def r f1_def f2_def f3_def)
  obtain chi where 1: "train_step a rim wt wk ws X source kappa noise_rms psf = f1 chi"
    using metric_returns [OF d(1), of "real_of_int (batch_size a)" f1] ts by auto
  obtain sc where 2: "f1 chi = f2 chi sc"
    using metric_returns [OF d(2), of "real_of_int (batch_size a)" "f2 chi"]
    unfolding f1_def by auto
  obtain kc where 3: "f2 chi sc = f3 chi sc kc"
    using metric_returns [OF d(3), of "real_of_int (batch_size a)" "f3 chi sc"]
    unfolding f2_def by auto
  show ?thesis
    using 1 2 3 by (auto simp: f3_def)
qed

lemma train_step_cost_only:
  assumes "(if unroll_time_steps a then call_function rim X noise_rms psf
            else call rim X noise_rms psf) = Inr (source_series, kappa_series, chi_squared)"
    and "train_step_cost a rim wt wk ws source kappa source_series kappa_series
           = Inr (source_cost1, kappa_cost1, cost)"
    and "train_step a rim wt wk ws X source kappa noise_rms psf = Inr (c, chi, sc, kc)"
  shows "c = cost"
  using assms(3) unfolding train_step_def assms(1) bind_err_def
  by (simp add: assms(2) split: sum.splits)

text \<open>
  Claim C2. Take recognized names for the three weighting schemes, a ground-truth source
  and kappa map of \<open>N\<close> samples, and the traces of \<open>steps\<close> link-space estimates the
  machine returns for them, each estimate of the shape of its ground truth. The cost
  \<open>train_step\<close> computes is a scalar: for each field, the squared difference between
  each step's estimate and the inverse link of the ground truth, times the weight of
  the pixel, summed over the pixels; these weighted by the weight of the step and
  summed over the steps; the two fields added and summed over the samples; the whole
  divided by \<open>batch_size\<close>. This cost is the first component of what \<open>train_step\<close>
  returns, and \<open>train_step\<close> returns when there is at least one step.
\<close>

theorem train_step_cost_is_weighted_sum:
  assumes "time_weights a \<in> {''uniform'', ''linear'', ''quadratic''}"
    and "kappa_residual_weights a \<in> {''uniform'', ''linear'', ''quadratic'', ''sqrt''}"
    and "source_residual_weights a \<in> {''uniform'', ''linear'', ''quadratic'', ''sqrt''}"
    and "dims source = [N, Hs, Ws, Cs]"
    and "dims (source_inverse_link rim source) = [N, Hs, Ws, Cs]"
    and "dims source_series = [steps a, N, Hs, Ws, Cs]"
    and "dims kappa = [N, Hk, Wk, Ck]"
    and "dims (kappa_inverse_link rim kappa) = [N, Hk, Wk, Ck]"
    and "dims kappa_series = [steps a, N, Hk, Wk, Ck]"
    and "(if unroll_time_steps a then call_function rim X noise_rms psf
          else call rim X noise_rms psf) = Inr (source_series, kappa_series, chi_squared)"
  shows "\<exists>wt wk ws ws_source wk_kappa source_cost1 kappa_cost1 cost.
           main_wt a = Inr wt \<and> main_wk a = Inr wk \<and> main_ws a = Inr ws
         \<and> ws source = Inr ws_source \<and> wk kappa = Inr wk_kappa
         \<and> train_step_cost a rim wt wk ws source kappa source_series kappa_series
             = Inr (source_cost1, kappa_cost1, cost)
         \<and> dims cost = []
         \<and> elem cost []
             = fdiv (fsum (map (\<lambda>b.
                   fadd (field_cost wt wk_kappa kappa_series (kappa_inverse_link rim kappa)
                           (steps a) Hk Wk Ck b)
                        (field_cost wt ws_source source_series (source_inverse_link rim source)
                           (steps a) Hs Ws Cs b))
                   [0..<N]))
                 (Fin (real_of_int (batch_size a)))
         \<and> (\<forall>c chi sc kc. train_step a rim wt wk ws X source kappa noise_rms psf
                              = Inr (c, chi, sc, kc) \<longrightarrow> c = cost)
         \<and> (1 \<le> steps a \<and> (\<exists>d ds. dims chi_squared = Suc d # ds) \<longrightarrow>
              (\<exists>chi sc kc. train_step a rim wt wk ws X source kappa noise_rms psf
                              = Inr (cost, chi, sc, kc)))"
proof -
  obtain wt where wt: "main_wt a = Inr wt" "dims wt = [steps a, 1]"
    using main_wt_recognized [OF assms(1)] by blast
  have wk: "main_wk a = Inr (residual_lambda (kappa_residual_weights a))"
    by (rule main_wk_lambda [OF assms(2)])
  have ws: "main_ws a = Inr (residual_lambda (source_residual_weights a))"
    by (rule main_ws_lambda [OF assms(3)])
  obtain ws_source where sw:
      "residual_lambda (source_residual_weights a) source = Inr ws_source"
      "dims ws_source = [N, Hs, Ws, Cs]"
    using residual_lambda_shape [OF assms(3,4)] by blast
  obtain wk_kappa where kw:
      "residual_lambda (kappa_residual_weights a) kappa = Inr wk_kappa"
      "dims wk_kappa = [N, Hk, Wk, Ck]"
    using residual_lambda_shape [OF assms(2,7)] by blast
  obtain source_cost1 kappa_cost1 cost where
    run: "train_step_cost a rim wt (residual_lambda (kappa_residual_weights a))
            (residual_lambda (source_residual_weights a)) source kappa source_series kappa_series
             = Inr (source_cost1, kappa_cost1, cost)"
    and c1: "dims source_cost1 = [steps a, N]" "dims kappa_cost1 = [steps a, N]"
    and c: "dims cost = []"
      "elem cost []
             = fdiv (fsum (map (\<lambda>b.
                   fadd (field_cost wt wk_kappa kappa_series (kappa_inverse_link rim kappa)
                           (steps a) Hk Wk Ck b)
                        (field_cost wt ws_source source_series (source_inverse_link rim source)
                           (steps a) Hs Ws Cs b))
                   [0..<N]))
                 (Fin (real_of_int (batch_size a)))"
    using train_step_cost_formula
      [where ws = "residual_lambda (source_residual_weights a)"
         and wk = "residual_lambda (kappa_residual_weights a)"
         and source = source and kappa = kappa and a = a,
       OF assms(6,5) sw assms(9,8) kw wt(2)]
    by blast
  have "c' = cost"
    if "train_step a rim wt (residual_lambda (kappa_residual_weights a))
            (residual_lambda (source_residual_weights a)) X source kappa noise_rms psf
          = Inr (c', chi, sc, kc)" for c' chi sc kc
    by (rule train_step_cost_only [OF assms(10) run that])
  moreover have "\<exists>chi sc kc. train_step a rim wt (residual_lambda (kappa_residual_weights a))
            (residual_lambda (source_residual_weights a)) X source kappa noise_rms psf
          = Inr (cost, chi, sc, kc)"
    if h: "1 \<le> steps a \<and> (\<exists>d ds. dims chi_squared = Suc d # ds)"
  proof -
    obtain d ds where d: "dims chi_squared = Suc d # ds" using h by blast
    obtain T where T: "steps a = Suc T" using h by (cases "steps a") auto
    show ?thesis
      using train_step_returns [OF assms(10) run d] c1 T by simp
  qed
  ultimately show ?thesis
    using wt(1) wk ws sw(1) kw(1) run c by blast
qed

text \<open>
  The example of the specification: two steps with weights 1/2 and 1/2, 2 by 2 pixels
  with weights 1/4. The source estimates are off by 2 and then by 1, the kappa estimates
  by 2 and then by 0: the cost is \<open>(1/2 * 4 + 1/2 * 1) + (1/2 * 4 + 1/2 * 0) = 9/2\<close>.
\<close>

theorem train_step_cost_is_weighted_sum_witness:
  "\<exists>wt wk ws source_cost1 kappa_cost1 cost.
     main_wt args_0 = Inr wt \<and> main_wk args_0 = Inr wk \<and> main_ws args_0 = Inr ws
   \<and> train_step_cost args_0 rim_identity wt wk ws pixels_1234 pixels_1234
        (estimates pixels_1234 2 1) (estimates pixels_1234 2 0)
       = Inr (source_cost1, kappa_cost1, cost)
   \<and> elem wt [0, 0] = Fin (1 / 2) \<and> elem wt [1, 0] = Fin (1 / 2)
   \<and> elem cost [] = Fin (9 / 2)
   \<and> (\<exists>chi sc kc. train_step args_0 rim_identity wt wk ws pixels_1234 pixels_1234 pixels_1234
                        pixels_1234 pixels_1234 = Inr (cost, chi, sc, kc))"
proof -
  have wt: "main_wt args_0 = Inr \<lparr>dims = [2, 1], elem = (\<lambda>idx. Fin (1 / 2))\<rparr>"
    by (simp add: main_wt_def args_0_def bind_err_def tf_scalar_ops tf_ones_def newaxis_last_def)
  have wl: "lambda_uniform pixels_1234 = Inr \<lparr>dims = [1, 2, 2, 1], elem = (\<lambda>idx. Fin (1 / 4))\<rparr>"
    by (simp add: lambda_uniform_def pixels_1234_def tf_scalar_ops tf_ones_def)
  have names: "main_wk args_0 = Inr lambda_uniform" "main_ws args_0 = Inr lambda_uniform"
    by (simp_all add: main_wk_def main_ws_def args_0_def)
  have ev: "fdiv (fsum (map (\<lambda>b.
                   fadd (field_cost \<lparr>dims = [2, 1], elem = (\<lambda>idx. Fin (1 / 2))\<rparr>
                           \<lparr>dims = [1, 2, 2, 1], elem = (\<lambda>idx. Fin (1 / 4))\<rparr>
                           (estimates pixels_1234 2 0) pixels_1234 2 2 2 1 b)
                        (field_cost \<lparr>dims = [2, 1], elem = (\<lambda>idx. Fin (1 / 2))\<rparr>
                           \<lparr>dims = [1, 2, 2, 1], elem = (\<lambda>idx. Fin (1 / 4))\<rparr>
                           (estimates pixels_1234 2 1) pixels_1234 2 2 2 1 b))
                   [0..<1])) (Fin 1) = Fin (9 / 2)"
    by (simp add: field_cost_def weighted_residual_def pixel_sum_def upt_2 estimates_def
        pixels_1234_def fsquare_def fsub_def)
  have a: "time_weights args_0 \<in> {''uniform'', ''linear'', ''quadratic''}"
    "kappa_residual_weights args_0 \<in> {''uniform'', ''linear'', ''quadratic'', ''sqrt''}"
    "source_residual_weights args_0 \<in> {''uniform'', ''linear'', ''quadratic'', ''sqrt''}"
    "steps args_0 = 2" "batch_size args_0 = 1"
    by (simp_all add: args_0_def)
  have sh: "dims pixels_1234 = [1, 2, 2, 1]"
    "dims (source_inverse_link rim_identity pixels_1234) = [1, 2, 2, 1]"
    "dims (kappa_inverse_link rim_identity pixels_1234) = [1, 2, 2, 1]"
    "dims (estimates pixels_1234 2 1) = [steps args_0, 1, 2, 2, 1]"
    "dims (estimates pixels_1234 2 0) = [steps args_0, 1, 2, 2, 1]"
    by (simp_all add: pixels_1234_def rim_identity_def estimates_def a(4))
  have call: "(if unroll_time_steps args_0
               then call_function rim_identity pixels_1234 pixels_1234 pixels_1234
               else call rim_identity pixels_1234 pixels_1234 pixels_1234)
       = Inr (estimates pixels_1234 2 1, estimates pixels_1234 2 0, tf_ones [2, 1])"
    by (simp add: rim_identity_def)
  have chi: "1 \<le> steps args_0 \<and> (\<exists>d ds. dims (tf_ones [2, 1]) = Suc d # ds)"
    by (simp add: a(4) tf_ones_def numeral_2_eq_2)
  obtain wt' wk ws ws_source wk_kappa source_cost1 kappa_cost1 cost where
    r: "main_wt args_0 = Inr wt'" "main_wk args_0 = Inr wk" "main_ws args_0 = Inr ws"
      "ws pixels_1234 = Inr ws_source" "wk pixels_1234 = Inr wk_kappa"
      "train_step_cost args_0 rim_identity wt' wk ws pixels_1234 pixels_1234
         (estimates pixels_1234 2 1) (estimates pixels_1234 2 0)
        = Inr (source_cost1, kappa_cost1, cost)"
    and c: "elem cost []
             = fdiv (fsum (map (\<lambda>b.
                   fadd (field_cost wt' wk_kappa (estimates pixels_1234 2 0)
                           (kappa_inverse_link rim_identity pixels_1234)
                           (steps args_0) 2 2 1 b)
                        (field_cost wt' ws_source (estimates pixels_1234 2 1)
                           (source_inverse_link rim_identity pixels_1234)
                           (steps args_0) 2 2 1 b))
                   [0..<1]))
                 (Fin (real_of_int (batch_size args_0)))"
    and t: "1 \<le> steps args_0 \<and> (\<exists>d ds. dims (tf_ones [2, 1]) = Suc d # ds) \<longrightarrow>
              (\<exists>chi sc kc. train_step args_0 rim_identity wt' wk ws pixels_1234 pixels_1234
                  pixels_1234 pixels_1234 pixels_1234 = Inr (cost, chi, sc, kc))"
    using train_step_cost_is_weighted_sum [OF a(1-3) sh(1,2,4) sh(1,3,5) call]
    by blast
  have w1: "wt' = \<lparr>dims = [2, 1], elem = (\<lambda>idx. Fin (1 / 2))\<rparr>"
    using r(1) wt by simp
  have w2: "ws_source = \<lparr>dims = [1, 2, 2, 1], elem = (\<lambda>idx. Fin (1 / 4))\<rparr>"
    "wk_kappa = \<lparr>dims = [1, 2, 2, 1], elem = (\<lambda>idx. Fin (1 / 4))\<rparr>"
    using r(2-5) names wl by auto
  have li: "kappa_inverse_link rim_identity pixels_1234 = pixels_1234"
    "source_inverse_link rim_identity pixels_1234 = pixels_1234"
    by (simp_all add: rim_identity_def)
  have "elem cost [] = Fin (9 / 2)"
    unfolding c w1 w2 li a(4,5) using ev by simp
  moreover have "elem wt' [0, 0] = Fin (1 / 2)" "elem wt' [1, 0] = Fin (1 / 2)"
    by (simp_all add: w1)
  ultimately show ?thesis
    using r(1,2,3,6) t chi by blast
qed

end
